theory Spec2Isabelle
  imports Complex_Main
begin

section \<open>The animated wave component\<close>

text \<open>
  A shallow embedding of \<^verbatim>\<open>animated-wave.component.ts\<close>. A JavaScript number is
  modelled as the real it denotes. The mesh engine and the scene lifecycle carry the
  code's expressions operator for operator, without the rounding of doubles and of the
  \<^verbatim>\<open>Float32Array\<close> position buffer: their theorems say which expression of the code a
  value is. The easing step with
  its targets, the colour channels read from an \<open>rgb\<close> string and the luminance, where
  an exact equality and a threshold are at stake, round every operation to binary64 with
  \<open>fl\<close>. The values \<^verbatim>\<open>NaN\<close> and \<^verbatim>\<open>Infinity\<close> are outside the
  model: a division by zero is \<open>0\<close> in HOL, and \<open>fl\<close> has no overflow, so the theorems
  assume divisors other than zero and magnitudes far below the largest double.
  The three.js objects, the noise generator and the browser are parameters or explicit
  state: what a call changes is returned as the new state.
\<close>

subsection \<open>Vectors, colours and the host\<close>

record vec3 =
  vx :: real
  vy :: real
  vz :: real

text \<open>A \<^verbatim>\<open>THREE.Euler\<close>; its rotation order is never changed and is left out.\<close>

record euler =
  ex :: real
  ey :: real
  ez :: real

text \<open>A \<^verbatim>\<open>THREE.Color\<close> with its channels \<^verbatim>\<open>r\<close>, \<^verbatim>\<open>g\<close>, \<^verbatim>\<open>b\<close>.\<close>

record color =
  cr :: real
  cg :: real
  cb :: real

text \<open>\<^verbatim>\<open>new THREE.Color(0xffffff)\<close> and \<^verbatim>\<open>new THREE.Color(0x000000)\<close>.\<close>

definition white :: color where
  "white = \<lparr>cr = 1, cg = 1, cb = 1\<rparr>"

definition black :: color where
  "black = \<lparr>cr = 0, cg = 0, cb = 0\<rparr>"

text \<open>
  What the component reads from its surroundings and does not own: the viewport sizes,
  and the library calls whose code is not part of the component. \<open>newColor s\<close> is
  \<^verbatim>\<open>new THREE.Color(s)\<close> for a string, \<open>None\<close> when the constructor throws;
  \<open>planeGeometry w h ws hs\<close> is the position array of
  \<^verbatim>\<open>new THREE.PlaneGeometry(w, h, ws, hs)\<close>, three numbers per vertex;
  \<open>createNoise2D\<close> is the function \<^verbatim>\<open>createNoise2D()\<close> returns;
  \<open>webglAvailable\<close> says whether \<^verbatim>\<open>new THREE.WebGLRenderer(...)\<close> succeeds.
\<close>

record host =
  innerWidth :: real
  innerHeight :: real
  docClientWidth :: real
  docClientHeight :: real
  bodyClientWidth :: real
  bodyClientHeight :: real
  newColor :: "string \<Rightarrow> color option"
  planeGeometry :: "real \<Rightarrow> real \<Rightarrow> nat \<Rightarrow> nat \<Rightarrow> real list"
  createNoise2D :: "real \<Rightarrow> real \<Rightarrow> real"
  webglAvailable :: bool
  devicePixelRatio :: real

record mouseEvent =
  clientX :: real
  clientY :: real

text \<open>\<^verbatim>\<open>a || b\<close> on numbers: \<open>0\<close> is the falsy one.\<close>

definition js_or :: "real \<Rightarrow> real \<Rightarrow> real" where
  "js_or a b = (if a \<noteq> 0 then a else b)"

subsection \<open>getDeviceInfo\<close>

definition screenWidth :: "host \<Rightarrow> real" where
  "screenWidth h =
     max 0 (js_or (js_or (js_or (innerWidth h) (docClientWidth h)) (bodyClientWidth h)) 0)"

definition screenHeight :: "host \<Rightarrow> real" where
  "screenHeight h =
     max 0 (js_or (js_or (js_or (innerHeight h) (docClientHeight h)) (bodyClientHeight h)) 0)"

definition screenRatio :: "host \<Rightarrow> real" where
  "screenRatio h = screenWidth h / screenHeight h"

definition screenCenterX :: "host \<Rightarrow> real" where
  "screenCenterX h = screenWidth h / 2"

definition screenCenterY :: "host \<Rightarrow> real" where
  "screenCenterY h = screenHeight h / 2"

definition mouseCenterX :: "host \<Rightarrow> mouseEvent \<Rightarrow> real" where
  "mouseCenterX h e = clientX e - screenCenterX h"

definition mouseCenterY :: "host \<Rightarrow> mouseEvent \<Rightarrow> real" where
  "mouseCenterY h e = clientY e - screenCenterY h"

subsection \<open>Binary64 rounding\<close>

text \<open>
  Rounding to the nearest integer, ties to the even one; the exponent of the binade of a
  real other than zero, held at \<open>-1022\<close> in the subnormal range; and \<open>fl x\<close>, the double
  nearest to \<open>x\<close>: \<open>x\<close> rounded to a multiple of \<open>2\<close> to the power \<open>expo x - 52\<close>.
  There is no overflow in \<open>fl\<close>: it is the rounding of the code for magnitudes below
  \<open>2\<close> to the power \<open>1024\<close>.
\<close>

definition roundEven :: "real \<Rightarrow> int" where
  "roundEven y =
     (let f = \<lfloor>y\<rfloor> in
      if y - of_int f < 1 / 2 then f
      else if 1 / 2 < y - of_int f then f + 1
      else if even f then f else f + 1)"

definition expo :: "real \<Rightarrow> int" where
  "expo x = max (- 1022) \<lfloor>log 2 \<bar>x\<bar>\<rfloor>"

definition fl :: "real \<Rightarrow> real" where
  "fl x =
     (if x = 0 then 0
      else of_int (roundEven (x / 2 powi (expo x - 52))) * 2 powi (expo x - 52))"

subsection \<open>Easing\<close>

text \<open>
  The statement \<^verbatim>\<open>v += (to - v) / ease\<close>, which \<^verbatim>\<open>addEase\<close> and
  \<^verbatim>\<open>addEaseEuler\<close> run on each axis: a subtraction, a division and an addition of
  doubles, each rounded.
\<close>

definition easeStep :: "real \<Rightarrow> real \<Rightarrow> real \<Rightarrow> real" where
  "easeStep cur target ease = fl (cur + fl (fl (target - cur) / ease))"

definition addEase :: "vec3 \<Rightarrow> vec3 \<Rightarrow> real \<Rightarrow> vec3" where
  "addEase pos to ease =
     \<lparr>vx = easeStep (vx pos) (vx to) ease,
      vy = easeStep (vy pos) (vy to) ease,
      vz = easeStep (vz pos) (vz to) ease\<rparr>"

definition addEaseEuler :: "euler \<Rightarrow> euler \<Rightarrow> real \<Rightarrow> euler" where
  "addEaseEuler rot to ease =
     \<lparr>ex = easeStep (ex rot) (ex to) ease,
      ey = easeStep (ey rot) (ey to) ease,
      ez = easeStep (ez rot) (ez to) ease\<rparr>"

subsection \<open>Colour resolution\<close>

text \<open>
  A DOM element, as far as the component looks at it: its computed
  \<^verbatim>\<open>backgroundColor\<close> and its \<^verbatim>\<open>parentElement\<close>.
\<close>

datatype element = Element (backgroundColor: string) (parentElement: "element option")

fun getElementBackground :: "element \<Rightarrow> string option" where
  "getElementBackground (Element bg parent) =
     (if bg \<noteq> [] \<and> bg \<noteq> ''rgba(0, 0, 0, 0)'' \<and> bg \<noteq> ''transparent'' then Some bg
      else (case parent of None \<Rightarrow> None | Some p \<Rightarrow> getElementBackground p))"

definition isDigit :: "char \<Rightarrow> bool" where
  "isDigit c = (48 \<le> (of_char c :: nat) \<and> (of_char c :: nat) \<le> 57)"

text \<open>\<^verbatim>\<open>color.match(/\d+/g)\<close>: the maximal runs of digits, left to right;
  \<^verbatim>\<open>null\<close> is the empty list. The first argument is the run being read.\<close>

fun matchDigits :: "string \<Rightarrow> string \<Rightarrow> string list" where
  "matchDigits run [] = (if run = [] then [] else [run])"
| "matchDigits run (c # cs) =
     (if isDigit c then matchDigits (run @ [c]) cs
      else (if run = [] then [] else [run]) @ matchDigits [] cs)"

text \<open>\<^verbatim>\<open>parseInt(m, 10)\<close> on a run of digits.\<close>

definition parseInt :: "string \<Rightarrow> real" where
  "parseInt ds = real (foldl (\<lambda>n c. 10 * n + (of_char c - 48)) 0 ds)"

text \<open>
  \<^verbatim>\<open>parseColor\<close>: \<open>newColor h\<close> is \<^verbatim>\<open>new THREE.Color(color)\<close>, with \<open>None\<close> when
  the constructor throws. The three quotients of the \<^verbatim>\<open>catch\<close> branch are doubles.
\<close>

definition parseColor :: "host \<Rightarrow> string \<Rightarrow> color" where
  "parseColor h color =
     (case newColor h color of
        Some c \<Rightarrow> c
      | None \<Rightarrow>
          (let matches = matchDigits [] color in
           if take 3 color = ''rgb'' \<and> matches \<noteq> [] \<and> 3 \<le> length matches
           then \<lparr>cr = fl (parseInt (matches ! 0) / 255),
                 cg = fl (parseInt (matches ! 1) / 255),
                 cb = fl (parseInt (matches ! 2) / 255)\<rparr>
           else white))"

text \<open>
  \<^verbatim>\<open>0.299 * color.r + 0.587 * color.g + 0.114 * color.b\<close> as the code evaluates it:
  the three literals are the doubles nearest to them, and every product and both sums,
  taken from left to right, are rounded.
\<close>

definition luminance :: "color \<Rightarrow> real" where
  "luminance c =
     fl (fl (fl (fl (299 / 1000) * cr c) + fl (fl (587 / 1000) * cg c))
         + fl (fl (114 / 1000) * cb c))"

definition isColorDark :: "color \<Rightarrow> bool" where
  "isColorDark c = (luminance c < 1 / 2)"



subsection \<open>The component's inputs\<close>

datatype Quality = Low | Medium | High

text \<open>
  The \<^verbatim>\<open>@Input\<close> properties. Those whose name the mesh engine uses for a field of
  its own carry the suffix \<open>_in\<close>. An optional string is \<open>None\<close> when undefined.
\<close>

record inputs =
  className :: "string option"
  speed_in :: real
  amplitude :: real
  smoothness :: real
  wireframe :: bool
  waveColor :: "string option"
  opacity :: real
  mouseInteraction :: bool
  quality :: Quality
  fov :: real
  waveOffsetY :: real
  waveRotation :: real
  cameraDistance :: real
  autoDetectBackground :: bool
  backgroundColor_in :: "string option"
  ease_in :: real
  mouseDistortionStrength_in :: real
  mouseDistortionSmoothness_in :: real
  mouseDistortionDecay_in :: real
  mouseShrinkScaleStrength_in :: real
  mouseShrinkScaleRadius_in :: real

text \<open>The defaults of the property declarations.\<close>

definition defaultInputs :: inputs where
  "defaultInputs =
     \<lparr>className = None, speed_in = 0.015, amplitude = 30, smoothness = 300,
      wireframe = True, waveColor = None, opacity = 1, mouseInteraction = True,
      quality = Medium, fov = 60, waveOffsetY = - 300, waveRotation = 29.8,
      cameraDistance = - 1000, autoDetectBackground = True, backgroundColor_in = None,
      ease_in = 12, mouseDistortionStrength_in = 0.5, mouseDistortionSmoothness_in = 100,
      mouseDistortionDecay_in = 0.0005, mouseShrinkScaleStrength_in = 0.7,
      mouseShrinkScaleRadius_in = 200\<rparr>"

fun getQualitySettings :: "Quality \<Rightarrow> nat \<times> nat" where
  "getQualitySettings Low = (64, 32)"
| "getQualitySettings High = (256, 128)"
| "getQualitySettings Medium = (128, 64)"

text \<open>
  \<open>determineWaveColor h p el\<close>: \<open>p\<close> holds the inputs and \<open>el\<close> is
  \<^verbatim>\<open>this.containerRef?.nativeElement\<close>. A string is truthy when it is defined and
  not empty.
\<close>

definition truthy :: "string option \<Rightarrow> bool" where
  "truthy s = (case s of None \<Rightarrow> False | Some t \<Rightarrow> t \<noteq> [])"

definition determineWaveColor :: "host \<Rightarrow> inputs \<Rightarrow> element option \<Rightarrow> color" where
  "determineWaveColor h p el =
     (if truthy (waveColor p) then parseColor h (the (waveColor p))
      else
        (case (if autoDetectBackground p then el else None) of
           Some e \<Rightarrow>
             (case getElementBackground e of
                Some detected \<Rightarrow>
                  (if isColorDark (parseColor h detected) then white else black)
              | None \<Rightarrow> black)
         | None \<Rightarrow> black))"

subsection \<open>The mesh engine (\<^verbatim>\<open>groundPlain\<close>)\<close>

datatype blending = NoBlending | NormalBlending

text \<open>The \<^verbatim>\<open>MeshLambertMaterial\<close>; its side is always \<^verbatim>\<open>THREE.DoubleSide\<close>.\<close>

record material =
  color_m :: color
  opacity_m :: real
  blending_m :: blending
  transparent :: bool
  depthWrite :: bool
  wireframe_m :: bool
  needsUpdate_m :: bool

text \<open>
  The geometry, as far as the engine uses it: the array of its \<^verbatim>\<open>position\<close>
  attribute (three numbers per vertex) and the attribute's \<^verbatim>\<open>needsUpdate\<close> flag.
\<close>

record planeGeom =
  positionArray :: "real list"
  positionNeedsUpdate :: bool

text \<open>\<^verbatim>\<open>positions.count\<close>: the number of vertices.\<close>

definition count :: "planeGeom \<Rightarrow> nat" where
  "count geo = length (positionArray geo) div 3"

text \<open>The container \<^verbatim>\<open>Object3D\<close>; \<open>holdsPlane\<close> says whether the mesh was added to it.\<close>

record object3d =
  position :: vec3
  rotation :: euler
  holdsPlane :: bool

record mesh =
  meshPosition :: vec3

record mousePos =
  mx :: real
  my :: real

record groundPlain =
  group :: "object3d option"
  geometry :: "planeGeom option"
  material :: "material option"
  plane :: "mesh option"
  simplex :: "(real \<Rightarrow> real \<Rightarrow> real) option"
  factor :: real
  scale :: real
  speed :: real
  cycle :: real
  ease :: real
  move :: vec3
  look :: euler
  mouseDistortionStrength :: real
  mouseDistortionSmoothness :: real
  mouseDistortionDecay :: real
  distortionTime :: real
  mouseShrinkScaleStrength :: real
  mouseShrinkScaleRadius :: real
  originalPositions :: "real list"

text \<open>\<^verbatim>\<open>positions.setXYZ(i, x, y, z)\<close>; a write past the end of a typed array is dropped.\<close>

definition setXYZ :: "real list \<Rightarrow> nat \<Rightarrow> real \<times> real \<times> real \<Rightarrow> real list" where
  "setXYZ a i v =
     (case v of (x, y, z) \<Rightarrow> a[i * 3 := x, i * 3 + 1 := y, i * 3 + 2 := z])"

text \<open>
  The falloff of the shrink effect at distance \<open>d\<close> from the pointer:
  \<^verbatim>\<open>let falloff = 0; if (d < radius) { falloff = 1 - d / radius; falloff = Math.pow(falloff, 2); }\<close>
\<close>

definition shrinkFalloff :: "real \<Rightarrow> real \<Rightarrow> real" where
  "shrinkFalloff radius d = (if d < radius then (1 - d / radius)\<^sup>2 else 0)"

text \<open>
  The block \<^verbatim>\<open>// Mouse ripple\<close> of the loop of \<^verbatim>\<open>moveNoise\<close>: what it adds
  to \<open>zOffset\<close> for a vertex whose original position is \<open>(originalX, originalY)\<close>.
  It is the code's value when \<open>mouseDistortionSmoothness\<close> and \<open>mouseShrinkScaleRadius\<close>
  are not zero; at zero the code divides by zero, which is outside the model.
\<close>

definition rippleOffset ::
  "groundPlain \<Rightarrow> (real \<Rightarrow> real \<Rightarrow> real) \<Rightarrow> real \<Rightarrow> real \<Rightarrow> real \<Rightarrow> real \<Rightarrow> real" where
  "rippleOffset g sx currentMouseX currentMouseY originalX originalY =
     (let distX = originalX - currentMouseX * 0.5;
          distY = originalY - currentMouseY * 0.5;
          dist = sqrt (distX * distX + distY * distY);
          t = distortionTime g * 1000;
          ripple =
            sx (distX / mouseDistortionSmoothness g + t)
               (distY / mouseDistortionSmoothness g - t)
            * mouseDistortionStrength g;
          zFalloff = max 0 (1 - dist / (mouseShrinkScaleRadius g * 2))
      in ripple * scale g * zFalloff)"

text \<open>The block \<^verbatim>\<open>// Mouse shrink/scale\<close>: the new \<open>(newX, newY)\<close>.\<close>

definition shrinkXY :: "groundPlain \<Rightarrow> real \<Rightarrow> real \<Rightarrow> real \<Rightarrow> real \<Rightarrow> real \<times> real" where
  "shrinkXY g currentMouseX currentMouseY originalX originalY =
     (let dx = originalX - currentMouseX;
          dy = originalY - currentMouseY;
          d = sqrt (dx * dx + dy * dy);
          falloff = shrinkFalloff (mouseShrinkScaleRadius g) d;
          shrinkAmount = mouseShrinkScaleStrength g * falloff
      in (originalX - dx * shrinkAmount, originalY - dy * shrinkAmount))"

text \<open>
  The body of the loop of \<^verbatim>\<open>moveNoise\<close> for vertex \<open>i\<close>: the new
  \<open>(newX, newY, zOffset)\<close>. \<open>g\<close> is the engine as the loop sees it, \<open>sx\<close> its noise
  function. The reads of \<open>originalPositions\<close> are in range whenever that array is as
  long as the position array, which \<^verbatim>\<open>create\<close> establishes.
\<close>

definition moveVertex ::
  "inputs \<Rightarrow> groundPlain \<Rightarrow> (real \<Rightarrow> real \<Rightarrow> real) \<Rightarrow> real \<Rightarrow> real \<Rightarrow> nat \<Rightarrow> real \<times> real \<times> real" where
  "moveVertex p g sx currentMouseX currentMouseY i =
     (let originalX = originalPositions g ! (i * 3);
          originalY = originalPositions g ! (i * 3 + 1);
          xoff_wave = originalX / factor g;
          yoff_wave = originalY / factor g + cycle g;
          zOffset = sx xoff_wave yoff_wave * scale g;
          zOffset' =
            (if mouseInteraction p \<and> mouseDistortionStrength g > 0
             then zOffset + rippleOffset g sx currentMouseX currentMouseY originalX originalY
             else zOffset);
          newXY =
            (if mouseInteraction p \<and> mouseShrinkScaleStrength g > 0
             then shrinkXY g currentMouseX currentMouseY originalX originalY
             else (originalX, originalY))
      in (fst newXY, snd newXY, zOffset'))"

text \<open>
  \<^verbatim>\<open>moveNoise(mouse)\<close>. \<open>p\<close> holds the component's inputs, read through
  \<^verbatim>\<open>this\<close> at the time of the call. The loop over \<open>i < positions.count\<close> is a fold
  over the indices.
\<close>

definition moveNoise :: "inputs \<Rightarrow> groundPlain \<Rightarrow> mousePos \<Rightarrow> groundPlain" where
  "moveNoise p g mouse =
     (case geometry g of
        None \<Rightarrow> g
      | Some geo \<Rightarrow>
          (case simplex g of
             None \<Rightarrow> g
           | Some sx \<Rightarrow>
               (let currentMouseX = (if mouseInteraction p then mx mouse else 0);
                    currentMouseY = (if mouseInteraction p then my mouse else 0);
                    g1 = g\<lparr>distortionTime := distortionTime g + mouseDistortionDecay g\<rparr>;
                    arr = fold (\<lambda>i a. setXYZ a i (moveVertex p g1 sx currentMouseX currentMouseY i))
                            [0..<count geo] (positionArray geo)
                in g1\<lparr>geometry := Some (geo\<lparr>positionArray := arr, positionNeedsUpdate := True\<rparr>),
                      cycle := cycle g1 + speed g1\<rparr>)))"

text \<open>
  \<^verbatim>\<open>update\<close>. The two targets \<^verbatim>\<open>-(mouse.x * 0.04)\<close> and
  \<^verbatim>\<open>this.waveOffsetY + mouse.y * 0.04\<close> are the doubles the easing step reads.
\<close>

definition update :: "inputs \<Rightarrow> groundPlain \<Rightarrow> mousePos \<Rightarrow> groundPlain" where
  "update p g mouse =
     (let g1 = moveNoise p g mouse in
      case (if mouseInteraction p then group g1 else None) of
        None \<Rightarrow> g1
      | Some grp \<Rightarrow>
          (let mv = (move g1)\<lparr>vx := - fl (mx mouse * fl (4 / 100)),
                               vy := fl (waveOffsetY p + fl (my mouse * fl (4 / 100)))\<rparr>
           in g1\<lparr>move := mv,
                 group := Some (grp\<lparr>position := addEase (position grp) mv (ease g1),
                                     rotation := addEaseEuler (rotation grp) (look g1) (ease g1)\<rparr>)\<rparr>))"

definition dispose :: "groundPlain \<Rightarrow> groundPlain" where
  "dispose g =
     g\<lparr>plane := None, geometry := None, material := None, simplex := None,
       group := None, originalPositions := []\<rparr>"

text \<open>The object \<^verbatim>\<open>createGroundPlain\<close> builds, before \<^verbatim>\<open>create\<close> is called.\<close>

definition createGroundPlain :: "inputs \<Rightarrow> groundPlain" where
  "createGroundPlain p =
     \<lparr>group = None, geometry = None, material = None, plane = None, simplex = None,
      factor = smoothness p, scale = amplitude p, speed = speed_in p, cycle = 0,
      ease = ease_in p,
      move = \<lparr>vx = 0, vy = waveOffsetY p, vz = cameraDistance p\<rparr>,
      look = \<lparr>ex = waveRotation p * pi / 180, ey = 0, ez = 0\<rparr>,
      mouseDistortionStrength = mouseDistortionStrength_in p,
      mouseDistortionSmoothness = mouseDistortionSmoothness_in p,
      mouseDistortionDecay = mouseDistortionDecay_in p,
      distortionTime = 0,
      mouseShrinkScaleStrength = mouseShrinkScaleStrength_in p,
      mouseShrinkScaleRadius = mouseShrinkScaleRadius_in p,
      originalPositions = []\<rparr>"

datatype sceneChild = PointLightChild | AmbientLightChild | GroupChild

text \<open>
  \<^verbatim>\<open>create(scene)\<close>. \<open>gw\<close> and \<open>gh\<close> are the \<^verbatim>\<open>geometryWidth\<close> and
  \<^verbatim>\<open>geometryHeight\<close> that \<^verbatim>\<open>createGroundPlain\<close> took from the quality; the
  result is the engine and the scene with the group added.
\<close>

definition create ::
  "host \<Rightarrow> inputs \<Rightarrow> element option \<Rightarrow> nat \<Rightarrow> nat \<Rightarrow> groundPlain \<Rightarrow> sceneChild list
     \<Rightarrow> groundPlain \<times> sceneChild list" where
  "create h p el gw gh g scene =
     (let grp = \<lparr>position = move g, rotation = look g, holdsPlane = False\<rparr>;
          geo = \<lparr>positionArray = planeGeometry h 4000 2000 gw gh, positionNeedsUpdate = False\<rparr>;
          waveColorValue = determineWaveColor h p el;
          mat = \<lparr>color_m = waveColorValue, opacity_m = opacity p,
                 blending_m = (if opacity p < 1 then NormalBlending else NoBlending),
                 transparent = (opacity p < 1),
                 depthWrite = (if opacity p < 1 then False else True),
                 wireframe_m = wireframe p, needsUpdate_m = False\<rparr>;
          g1 = g\<lparr>group := Some grp, geometry := Some geo,
                 originalPositions := positionArray geo, material := Some mat,
                 plane := Some \<lparr>meshPosition = \<lparr>vx = 0, vy = 0, vz = 0\<rparr>\<rparr>,
                 simplex := Some (createNoise2D h)\<rparr>;
          g2 = moveNoise p g1 \<lparr>mx = 0, my = 0\<rparr>;
          g3 = g2\<lparr>group := map_option (\<lambda>o3. o3\<lparr>holdsPlane := True\<rparr>) (group g2)\<rparr>
      in (g3, scene @ [GroupChild]))"

text \<open>
  The live position buffer of an engine (empty once the geometry is set to null), and
  the coordinates of vertex \<open>i\<close> in a buffer, as \<^verbatim>\<open>getX\<close>, \<^verbatim>\<open>getY\<close> and
  \<^verbatim>\<open>getZ\<close> of the attribute read them.
\<close>

definition livePositions :: "groundPlain \<Rightarrow> real list" where
  "livePositions g = (case geometry g of None \<Rightarrow> [] | Some geo \<Rightarrow> positionArray geo)"

definition getX :: "real list \<Rightarrow> nat \<Rightarrow> real" where
  "getX a i = a ! (i * 3)"

definition getY :: "real list \<Rightarrow> nat \<Rightarrow> real" where
  "getY a i = a ! (i * 3 + 1)"

definition getZ :: "real list \<Rightarrow> nat \<Rightarrow> real" where
  "getZ a i = a ! (i * 3 + 2)"

subsection \<open>The component and the browser state it changes\<close>

record camera =
  fov_c :: real
  aspect :: real
  near :: real
  far :: real

record renderer =
  width_r :: real
  height_r :: real
  pixelRatio :: real

record pointLight =
  color_l :: color
  intensity :: real
  distance :: real
  position_l :: vec3

text \<open>
  The two handlers the component registers on \<^verbatim>\<open>window\<close>:
  \<^verbatim>\<open>('mousemove', this.handleMouseMove)\<close> and \<^verbatim>\<open>('resize', this.handleResize)\<close>.
\<close>

datatype listener = MouseMoveListener | ResizeListener

datatype exn = WebGLError

text \<open>
  The fields of the component (\<open>props\<close> holds its inputs), followed by the browser
  state its methods change: the listeners registered on \<^verbatim>\<open>window\<close>, the number of
  canvases attached to the container, and the animation frames requested and not yet run
  or cancelled (\<open>nextFrameId\<close> is the id the next request returns; ids are positive).
\<close>

record component =
  props :: inputs
  containerRef :: "element option"
  webGLFailed :: bool
  scene :: "sceneChild list option"
  camera :: "camera option"
  renderer :: "renderer option"
  animationFrameId :: "nat option"
  mouse :: mousePos
  pointLight :: "pointLight option"
  groundPlain :: "groundPlain option"
  listeners :: "listener list"
  canvases :: nat
  nextFrameId :: nat
  pendingFrames :: "nat list"

text \<open>A component as its field initialisers leave it, in a browser with nothing registered.\<close>

definition newComponent :: "inputs \<Rightarrow> element option \<Rightarrow> component" where
  "newComponent p el =
     \<lparr>props = p, containerRef = el, webGLFailed = False, scene = None, camera = None,
      renderer = None, animationFrameId = None, mouse = \<lparr>mx = 0, my = 0\<rparr>,
      pointLight = None, groundPlain = None, listeners = [], canvases = 0,
      nextFrameId = 1, pendingFrames = []\<rparr>"

text \<open>Registering a listener that is registered already changes nothing.\<close>

definition addEventListener :: "listener \<Rightarrow> listener list \<Rightarrow> listener list" where
  "addEventListener l ls = (if l \<in> set ls then ls else ls @ [l])"

definition removeEventListener :: "listener \<Rightarrow> listener list \<Rightarrow> listener list" where
  "removeEventListener l ls = removeAll l ls"

definition requestAnimationFrame :: "component \<Rightarrow> component" where
  "requestAnimationFrame c =
     c\<lparr>animationFrameId := Some (nextFrameId c),
       pendingFrames := pendingFrames c @ [nextFrameId c],
       nextFrameId := nextFrameId c + 1\<rparr>"

definition handleMouseMove :: "host \<Rightarrow> mouseEvent \<Rightarrow> component \<Rightarrow> component" where
  "handleMouseMove h e c =
     (if \<not> mouseInteraction (props c) then c
      else c\<lparr>mouse := \<lparr>mx = mouseCenterX h e, my = mouseCenterY h e\<rparr>\<rparr>)"

definition handleResize :: "host \<Rightarrow> component \<Rightarrow> component" where
  "handleResize h c =
     (case camera c of
        None \<Rightarrow> c
      | Some cam \<Rightarrow>
          (case renderer c of
             None \<Rightarrow> c
           | Some r \<Rightarrow>
               c\<lparr>camera := Some (cam\<lparr>aspect := screenRatio h\<rparr>),
                 renderer := Some (r\<lparr>width_r := screenWidth h, height_r := screenHeight h\<rparr>)\<rparr>))"

text \<open>The browser delivers an event to the handler when the handler is registered.\<close>

definition dispatchMouseMove :: "host \<Rightarrow> mouseEvent \<Rightarrow> component \<Rightarrow> component" where
  "dispatchMouseMove h e c =
     (if MouseMoveListener \<in> set (listeners c) then handleMouseMove h e c else c)"

definition dispatchResize :: "host \<Rightarrow> component \<Rightarrow> component" where
  "dispatchResize h c =
     (if ResizeListener \<in> set (listeners c) then handleResize h c else c)"

subsection \<open>Scene lifecycle\<close>

text \<open>The closure \<^verbatim>\<open>animate\<close> of \<^verbatim>\<open>setupScene\<close>; rendering changes no state.\<close>

definition animate :: "host \<Rightarrow> component \<Rightarrow> component" where
  "animate h c =
     (if scene c = None \<or> camera c = None \<or> renderer c = None then c
      else
        (case groundPlain c of
           None \<Rightarrow> c
         | Some g \<Rightarrow>
             requestAnimationFrame (c\<lparr>groundPlain := Some (update (props c) g (mouse c))\<rparr>)))"

text \<open>One animation tick: the browser runs the oldest requested frame, if there is one.\<close>

definition tick :: "host \<Rightarrow> component \<Rightarrow> component" where
  "tick h c =
     (case pendingFrames c of
        [] \<Rightarrow> c
      | f # fs \<Rightarrow> animate h (c\<lparr>pendingFrames := fs\<rparr>))"

definition cleanupScene :: "component \<Rightarrow> component" where
  "cleanupScene c =
     (let ls1 = (if mouseInteraction (props c)
                 then removeEventListener MouseMoveListener (listeners c) else listeners c);
          ls2 = removeEventListener ResizeListener ls1;
          pf = (case animationFrameId c of
                  None \<Rightarrow> pendingFrames c
                | Some f \<Rightarrow> if f \<noteq> 0 then removeAll f (pendingFrames c) else pendingFrames c);
          c1 = c\<lparr>listeners := ls2, pendingFrames := pf,
                 groundPlain := map_option dispose (groundPlain c)\<rparr>;
          c2 = c1\<lparr>groundPlain := None\<rparr>;
          c3 = c2\<lparr>scene := map_option (\<lambda>children. []) (scene c2)\<rparr>;
          c4 = (case renderer c3 of
                  None \<Rightarrow> c3
                | Some r \<Rightarrow>
                    if containerRef c3 = None then c3 else c3\<lparr>canvases := canvases c3 - 1\<rparr>)
      in c4\<lparr>scene := None, camera := None, renderer := None, animationFrameId := None,
            pointLight := None\<rparr>)"

text \<open>
  The \<^verbatim>\<open>try\<close> block of \<^verbatim>\<open>setupScene\<close>: the renderer, or the exception the
  constructor throws.
\<close>

definition tryCreateRenderer :: "host \<Rightarrow> exn + renderer" where
  "tryCreateRenderer h =
     (if webglAvailable h
      then Inr \<lparr>width_r = screenWidth h, height_r = screenHeight h,
                pixelRatio = devicePixelRatio h\<rparr>
      else Inl WebGLError)"

definition setupScene :: "host \<Rightarrow> bool \<Rightarrow> component \<Rightarrow> component" where
  "setupScene h rebuild c =
     (case containerRef c of
        None \<Rightarrow> c
      | Some container \<Rightarrow>
          (let c0 = (if rebuild then cleanupScene c else c);
               c1 = c0\<lparr>scene := Some [],
                       camera := Some \<lparr>fov_c = fov (props c0), aspect = screenRatio h,
                                        near = 0.1, far = 20000\<rparr>\<rparr>
           in case tryCreateRenderer h of
                Inl e \<Rightarrow> c1\<lparr>webGLFailed := True\<rparr>
              | Inr r \<Rightarrow>
                  (let c2 = c1\<lparr>renderer := Some r, canvases := canvases c1 + 1,
                               webGLFailed := False\<rparr>;
                       waveColorValue = determineWaveColor h (props c2) (containerRef c2);
                       light = \<lparr>color_l = waveColorValue, intensity = 4, distance = 1000,
                                position_l = \<lparr>vx = 0, vy = 200, vz = - 500\<rparr>\<rparr>;
                       sc = the (scene c2) @ [PointLightChild] @ [AmbientLightChild];
                       gw = fst (getQualitySettings (quality (props c2)));
                       gh = snd (getQualitySettings (quality (props c2)));
                       made = create h (props c2) (containerRef c2) gw gh
                                (createGroundPlain (props c2)) sc;
                       c3 = c2\<lparr>pointLight := Some light, groundPlain := Some (fst made),
                               scene := Some (snd made)\<rparr>;
                       c4 = c3\<lparr>mouse := \<lparr>mx = screenCenterX h, my = screenCenterY h\<rparr>\<rparr>;
                       c5 = (if mouseInteraction (props c4)
                             then c4\<lparr>listeners := addEventListener MouseMoveListener (listeners c4)\<rparr>
                             else c4);
                       c6 = c5\<lparr>listeners := addEventListener ResizeListener (listeners c5)\<rparr>
                   in animate h c6)))"

definition ngAfterViewInit :: "host \<Rightarrow> component \<Rightarrow> component" where
  "ngAfterViewInit h c = setupScene h False c"

definition ngOnDestroy :: "component \<Rightarrow> component" where
  "ngOnDestroy c = cleanupScene c"

definition heavyKeys :: "string list" where
  "heavyKeys =
     [''quality'', ''smoothness'', ''amplitude'', ''speed'', ''waveOffsetY'',
      ''waveRotation'', ''cameraDistance'', ''fov'', ''mouseInteraction'']"

text \<open>\<^verbatim>\<open>ngOnChanges(changes)\<close>; \<open>changes\<close> lists the names of the inputs that changed.\<close>

definition ngOnChanges :: "host \<Rightarrow> string list \<Rightarrow> component \<Rightarrow> component" where
  "ngOnChanges h changes c =
     (if scene c = None \<or> renderer c = None then c
      else
        (case groundPlain c of
           None \<Rightarrow> c
         | Some g \<Rightarrow>
             (let c1 =
                    (case material g of
                       None \<Rightarrow> c
                     | Some mat \<Rightarrow>
                         (let newWaveColor = determineWaveColor h (props c) (containerRef c);
                              mat' = mat\<lparr>color_m := newWaveColor,
                                         wireframe_m := wireframe (props c),
                                         opacity_m := opacity (props c),
                                         transparent := (opacity (props c) < 1),
                                         depthWrite := (if opacity (props c) < 1 then False else True),
                                         blending_m := (if opacity (props c) < 1
                                                        then NormalBlending else NoBlending),
                                         needsUpdate_m := True\<rparr>
                          in c\<lparr>groundPlain := Some (g\<lparr>material := Some mat'\<rparr>),
                                pointLight := map_option (\<lambda>l. l\<lparr>color_l := newWaveColor\<rparr>)
                                                (pointLight c)\<rparr>));
                  shouldRebuild = list_ex (\<lambda>k. k \<in> set changes) heavyKeys
              in if shouldRebuild then setupScene h True c1 else c1)))"

text \<open>
  The framework changing inputs of a mounted component: it assigns the new values, then
  calls \<^verbatim>\<open>ngOnChanges\<close> with the names of those that changed.
\<close>

definition changeInputs :: "host \<Rightarrow> inputs \<Rightarrow> string list \<Rightarrow> component \<Rightarrow> component" where
  "changeInputs h p' changes c = ngOnChanges h changes (c\<lparr>props := p'\<rparr>)"

subsection \<open>Observations and invariants\<close>

text \<open>
  What a test reads off a component: the phase accumulator of its engine and the height
  of vertex \<open>i\<close> in the live buffer, \<open>None\<close> when there is no engine.
\<close>

text \<open>The phase accumulator after \<open>n\<close> runs of \<^verbatim>\<open>cycle += speed\<close> from \<open>0\<close>.\<close>

primrec advances :: "real \<Rightarrow> nat \<Rightarrow> real" where
  "advances s 0 = 0"
| "advances s (Suc n) = advances s n + s"

definition engineCycle :: "component \<Rightarrow> real option" where
  "engineCycle c = (case groundPlain c of None \<Rightarrow> None | Some g \<Rightarrow> Some (cycle g))"

definition vertexZ :: "component \<Rightarrow> nat \<Rightarrow> real option" where
  "vertexZ c i =
     (case groundPlain c of None \<Rightarrow> None | Some g \<Rightarrow> Some (getZ (livePositions g) i))"

text \<open>
  \<open>running h p pg g\<close>: the engine \<open>g\<close> is live, was built from the inputs \<open>p\<close> with the
  noise function of \<open>h\<close>, and its two buffers are as long as the plane \<open>pg\<close> it copied.
  \<open>mounted h p pg c\<close>: the scene of \<open>c\<close> is set up around such an engine and a frame is
  requested.
\<close>

definition running :: "host \<Rightarrow> inputs \<Rightarrow> real list \<Rightarrow> groundPlain \<Rightarrow> bool" where
  "running h p pg g =
     (geometry g \<noteq> None \<and> simplex g = Some (createNoise2D h) \<and> originalPositions g = pg
      \<and> length (livePositions g) = length pg \<and> factor g = smoothness p
      \<and> scale g = amplitude p \<and> speed g = speed_in p)"

definition mounted :: "host \<Rightarrow> inputs \<Rightarrow> real list \<Rightarrow> component \<Rightarrow> bool" where
  "mounted h p pg c =
     (props c = p \<and> scene c \<noteq> None \<and> camera c \<noteq> None \<and> renderer c \<noteq> None
      \<and> pendingFrames c \<noteq> []
      \<and> (case groundPlain c of None \<Rightarrow> False | Some g \<Rightarrow> running h p pg g))"

subsection \<open>Sample inputs\<close>

text \<open>
  Concrete inputs on which the theorems below are instantiated: a noise function with
  values in \<open>(-1, 1)\<close>; a plane of three vertices, two opposite corners and the centre;
  a colour constructor that reads \<^verbatim>\<open>#ff0000\<close> and every string \<^verbatim>\<open>rgb(r, g, b)\<close>,
  each channel \<^verbatim>\<open>Math.min(255, n) / 255\<close> as a double, and throws on any other
  string; a host with a viewport of
  1280 by 720, and the same host without WebGL; an engine as \<^verbatim>\<open>create\<close> has it when
  it first calls \<^verbatim>\<open>moveNoise\<close>; container elements on a dark, a light, a fully
  transparent and a green page, and in a dark box on a light page; the configuration of
  the end-to-end test; and a component mounted with the default inputs.
\<close>

definition sampleNoise :: "real \<Rightarrow> real \<Rightarrow> real" where
  "sampleNoise u v = (2 * u + v) / (1 + 2 * \<bar>u\<bar> + \<bar>v\<bar>)"

definition samplePlane :: "real \<Rightarrow> real \<Rightarrow> nat \<Rightarrow> nat \<Rightarrow> real list" where
  "samplePlane w h ws hs = [- w / 2, h / 2, 0,  0, 0, 0,  w / 2, - h / 2, 0]"

definition sampleNewColor :: "string \<Rightarrow> color option" where
  "sampleNewColor s =
     (if s = ''#ff0000'' then Some \<lparr>cr = 1, cg = 0, cb = 0\<rparr>
      else if take 4 s = ''rgb('' \<and> length (matchDigits [] s) = 3
        then Some \<lparr>cr = fl (min 255 (parseInt (matchDigits [] s ! 0)) / 255),
                   cg = fl (min 255 (parseInt (matchDigits [] s ! 1)) / 255),
                   cb = fl (min 255 (parseInt (matchDigits [] s ! 2)) / 255)\<rparr>
      else None)"

definition sampleHost :: host where
  "sampleHost =
     \<lparr>innerWidth = 1280, innerHeight = 720, docClientWidth = 0, docClientHeight = 0,
      bodyClientWidth = 0, bodyClientHeight = 0, newColor = sampleNewColor,
      planeGeometry = samplePlane, createNoise2D = sampleNoise, webglAvailable = True,
      devicePixelRatio = 1\<rparr>"

definition failingHost :: host where
  "failingHost = sampleHost\<lparr>webglAvailable := False\<rparr>"

definition sampleEngine :: groundPlain where
  "sampleEngine =
     (createGroundPlain defaultInputs)
       \<lparr>group := Some \<lparr>position = \<lparr>vx = 0, vy = - 300, vz = - 1000\<rparr>,
                        rotation = \<lparr>ex = 29.8 * pi / 180, ey = 0, ez = 0\<rparr>,
                        holdsPlane = False\<rparr>,
        geometry := Some \<lparr>positionArray = samplePlane 4000 2000 128 64,
                           positionNeedsUpdate = False\<rparr>,
        originalPositions := samplePlane 4000 2000 128 64,
        material := Some \<lparr>color_m = white, opacity_m = 1, blending_m = NoBlending,
                           transparent = False, depthWrite = True, wireframe_m = True,
                           needsUpdate_m = False\<rparr>,
        plane := Some \<lparr>meshPosition = \<lparr>vx = 0, vy = 0, vz = 0\<rparr>\<rparr>,
        simplex := Some sampleNoise\<rparr>"

definition darkPage :: element where
  "darkPage =
     Element [] (Some (Element ''rgba(0, 0, 0, 0)'' (Some (Element ''rgb(0, 0, 0)'' None))))"





definition lowInputs :: inputs where
  "lowInputs = defaultInputs\<lparr>quality := Low, mouseInteraction := False\<rparr>"

definition mountedSample :: component where
  "mountedSample = ngAfterViewInit sampleHost (newComponent defaultInputs (Some darkPage))"

section \<open>Properties\<close>

subsection \<open>Binary64 rounding\<close>

lemma roundEven_close: "\<bar>of_int (roundEven y) - y\<bar> \<le> 1 / 2"
  unfolding roundEven_def Let_def by (auto simp: abs_if) linarith+

lemma expo_eq:
  assumes "2 powi e \<le> \<bar>x\<bar>" and "\<bar>x\<bar> < 2 powi (e + 1)" and "- 1022 \<le> e"
  shows "expo x = e"
proof -
  have pos: "0 < \<bar>x\<bar>" using assms(1) by (smt (verit) zero_less_power_int)
  have p: "2 powr real_of_int e = 2 powi e" "2 powr (real_of_int e + 1) = 2 powi (e + 1)"
    using powr_real_of_int' [of 2 e] powr_real_of_int' [of 2 "e + 1"] by simp_all
  have "\<lfloor>log 2 \<bar>x\<bar>\<rfloor> = e"
    using assms(1,2) pos by (simp add: floor_log_eq_powr_iff p)
  then show ?thesis using assms(3) by (simp add: expo_def)
qed

lemma fl_eval:
  assumes "2 powi e \<le> \<bar>x\<bar>" and "\<bar>x\<bar> < 2 powi (e + 1)" and "- 1022 \<le> e"
  shows "fl x = of_int (roundEven (x / 2 powi (e - 52))) * 2 powi (e - 52)"
proof -
  have "x \<noteq> 0" using assms(1) by (smt (verit) zero_less_power_int abs_zero)
  then show ?thesis by (simp add: fl_def expo_eq [OF assms])
qed

lemma powi_floor_log_le:
  assumes "x \<noteq> 0"
  shows "2 powi \<lfloor>log 2 \<bar>x\<bar>\<rfloor> \<le> \<bar>x\<bar>"
proof -
  have pos: "0 < \<bar>x\<bar>" using assms by simp
  have "2 powr real_of_int \<lfloor>log 2 \<bar>x\<bar>\<rfloor> \<le> 2 powr log 2 \<bar>x\<bar>"
    by (rule powr_mono) simp_all
  also have "\<dots> = \<bar>x\<bar>" using pos by simp
  finally show ?thesis using powr_real_of_int' [of 2 "\<lfloor>log 2 \<bar>x\<bar>\<rfloor>"] by simp
qed

lemma fl_half_ulp:
  assumes "x \<noteq> 0"
  shows "\<bar>fl x - x\<bar> \<le> 2 powi (expo x - 52) / 2"
proof -
  let ?q = "(2::real) powi (expo x - 52)"
  have q: "0 < ?q" by simp
  have "fl x - x = (of_int (roundEven (x / ?q)) - x / ?q) * ?q"
    using assms q by (simp add: fl_def field_simps)
  then have "\<bar>fl x - x\<bar> = \<bar>of_int (roundEven (x / ?q)) - x / ?q\<bar> * ?q"
    using q by (simp add: abs_mult)
  also have "\<dots> \<le> 1 / 2 * ?q"
    using roundEven_close [of "x / ?q"] q by (intro mult_right_mono) simp_all
  finally show ?thesis by simp
qed

lemma fl_error: "\<bar>fl x - x\<bar> \<le> \<bar>x\<bar> / 2 ^ 53 + 2 powi (- 1075)"
proof (cases "x = 0")
  case True
  then show ?thesis by (simp add: fl_def)
next
  case False
  note h = fl_half_ulp [OF False]
  have nn: "0 \<le> \<bar>x\<bar> / 2 ^ 53" "(0::real) \<le> 2 powi (- 1075)" by simp_all
  show ?thesis
  proof (cases "- 1022 \<le> \<lfloor>log 2 \<bar>x\<bar>\<rfloor>")
    case True
    then have e: "expo x = \<lfloor>log 2 \<bar>x\<bar>\<rfloor>" by (simp add: expo_def)
    have "(2::real) powi (expo x - 52) / 2 = 2 powi (expo x) / 2 ^ 53"
      by (simp add: power_int_diff)
    also have "\<dots> \<le> \<bar>x\<bar> / 2 ^ 53"
      unfolding e using powi_floor_log_le [OF False] by (simp add: divide_right_mono)
    finally show ?thesis using h nn by linarith
  next
    case False
    then have e: "expo x = - 1022" by (simp add: expo_def)
    have "(2::real) powi (- 1075 + 1) = 2 powi (- 1075) * 2"
      by (rule power_int_add_1) simp
    then have "(2::real) powi (expo x - 52) / 2 = 2 powi (- 1075)"
      unfolding e by simp
    then show ?thesis using h nn by linarith
  qed
qed

lemma fl_error_le:
  assumes "\<bar>x\<bar> \<le> B"
  shows "\<bar>fl x - x\<bar> \<le> B / 2 ^ 53 + 2 powi (- 1075)"
proof -
  have "\<bar>x\<bar> / 2 ^ 53 \<le> B / 2 ^ 53" using assms by (simp add: divide_right_mono)
  then show ?thesis using fl_error [of x] by linarith
qed

lemma shrink53: "0 \<le> X \<Longrightarrow> X / 2 ^ 53 \<le> X / (4::real)"
  by (rule divide_left_mono) simp_all

lemma easeStep_bound:
  assumes "1 \<le> \<bar>e\<bar>"
  shows "\<bar>easeStep c t e - (c + (t - c) / e)\<bar>
           \<le> (\<bar>c\<bar> + 4 * \<bar>t - c\<bar>) / 2 ^ 53 + 5 * 2 powi (- 1075)"
proof -
  define \<eta> :: real where "\<eta> = 2 powi (- 1075)"
  define D where "D = \<bar>t - c\<bar>"
  define p where "p = D / 2 ^ 53"
  define a where "a = fl (t - c)"
  define s where "s = a / e"
  define b where "b = fl s"
  have \<eta>: "0 \<le> \<eta>" by (simp add: \<eta>_def)
  have D: "0 \<le> D" by (simp add: D_def)
  have p: "0 \<le> p" using D by (simp add: p_def)
  have e0: "e \<noteq> 0" using assms by auto
  have E1: "\<bar>a - (t - c)\<bar> \<le> p + \<eta>"
    unfolding a_def p_def D_def \<eta>_def by (rule fl_error)
  have a: "\<bar>a\<bar> \<le> D + (p + \<eta>)" using E1 unfolding D_def by linarith
  have "\<bar>s - (t - c) / e\<bar> = \<bar>a - (t - c)\<bar> / \<bar>e\<bar>"
    using e0 by (simp add: s_def diff_divide_distrib [symmetric])
  also have "\<dots> \<le> \<bar>a - (t - c)\<bar> / 1"
    using assms by (intro divide_left_mono) simp_all
  finally have S: "\<bar>s - (t - c) / e\<bar> \<le> p + \<eta>" using E1 by simp
  have "\<bar>s\<bar> = \<bar>a\<bar> / \<bar>e\<bar>" by (simp add: s_def)
  also have "\<dots> \<le> \<bar>a\<bar> / 1" using assms by (intro divide_left_mono) simp_all
  finally have s: "\<bar>s\<bar> \<le> D + (p + \<eta>)" using a by simp
  have q1: "(D + (p + \<eta>)) / 2 ^ 53 \<le> p + (p + \<eta>) / 4"
    using shrink53 [of "p + \<eta>"] p \<eta> by (simp add: p_def add_divide_distrib)
  have E2: "\<bar>b - s\<bar> \<le> p + (p + \<eta>) / 4 + \<eta>"
    using fl_error_le [OF s] q1 unfolding b_def \<eta>_def by linarith
  have cb: "\<bar>c + b\<bar> \<le> \<bar>c\<bar> + (D + (p + \<eta>) + (p + (p + \<eta>) / 4 + \<eta>))"
    using s E2 by linarith
  have q2: "(\<bar>c\<bar> + (D + (p + \<eta>) + (p + (p + \<eta>) / 4 + \<eta>))) / 2 ^ 53
      \<le> \<bar>c\<bar> / 2 ^ 53 + p + ((p + \<eta>) + (p + (p + \<eta>) / 4 + \<eta>)) / 4"
    using shrink53 [of "(p + \<eta>) + (p + (p + \<eta>) / 4 + \<eta>)"] p \<eta>
    by (simp add: p_def add_divide_distrib)
  have E3: "\<bar>fl (c + b) - (c + b)\<bar>
      \<le> \<bar>c\<bar> / 2 ^ 53 + p + ((p + \<eta>) + (p + (p + \<eta>) / 4 + \<eta>)) / 4 + \<eta>"
    using fl_error_le [OF cb] q2 unfolding \<eta>_def by linarith
  define X3 where "X3 = \<bar>fl (c + b) - (c + b)\<bar>"
  define X2 where "X2 = \<bar>b - s\<bar>"
  define X1 where "X1 = \<bar>s - (t - c) / e\<bar>"
  define C where "C = \<bar>c\<bar> / 2 ^ 53"
  have tri: "\<bar>easeStep c t e - (c + (t - c) / e)\<bar> \<le> X3 + X2 + X1"
    unfolding easeStep_def b_def s_def a_def X3_def X2_def X1_def by linarith
  have "X3 + X2 + X1 \<le> C + 4 * p + 5 * \<eta>"
    using E3 E2 S p \<eta> unfolding X3_def [symmetric] X2_def [symmetric] X1_def [symmetric]
      C_def [symmetric] by (simp add: field_simps)
  then have "\<bar>easeStep c t e - (c + (t - c) / e)\<bar> \<le> C + 4 * p + 5 * \<eta>"
    using tri by linarith
  then show ?thesis
    unfolding C_def p_def D_def \<eta>_def by (simp add: add_divide_distrib)
qed

lemma easeStep_exact:
  assumes "fl (t - c) = t - c" and "fl t = t"
  shows "easeStep c t 1 = t"
  using assms by (simp add: easeStep_def)

subsection \<open>The position buffer and the engine\<close>

lemma length_setXYZ: "length (setXYZ a i v) = length a"
  by (simp add: setXYZ_def split: prod.splits)

lemma length_fold_setXYZ:
  "length (fold (\<lambda>i a. setXYZ a i (f i)) is a) = length a"
  by (induction "is" arbitrary: a) (simp_all add: length_setXYZ)

lemma setXYZ_nth_other:
  "j < k * 3 \<Longrightarrow> setXYZ a k v ! j = a ! j"
  by (simp add: setXYZ_def split: prod.splits)

lemma setXYZ_nth_x: "k * 3 + 2 < length a \<Longrightarrow> setXYZ a k v ! (k * 3) = fst v"
  by (simp add: setXYZ_def split: prod.splits)

lemma setXYZ_nth_y: "k * 3 + 2 < length a \<Longrightarrow> setXYZ a k v ! (k * 3 + 1) = fst (snd v)"
  by (simp add: setXYZ_def split: prod.splits)

lemma setXYZ_nth_z: "k * 3 + 2 < length a \<Longrightarrow> setXYZ a k v ! (k * 3 + 2) = snd (snd v)"
  by (simp add: setXYZ_def split: prod.splits)

lemma fold_setXYZ_nth:
  assumes "i < n" and "n * 3 \<le> length a"
  shows "fold (\<lambda>i a. setXYZ a i (f i)) [0..<n] a ! (i * 3) = fst (f i)
       \<and> fold (\<lambda>i a. setXYZ a i (f i)) [0..<n] a ! (i * 3 + 1) = fst (snd (f i))
       \<and> fold (\<lambda>i a. setXYZ a i (f i)) [0..<n] a ! (i * 3 + 2) = snd (snd (f i))"
  using assms
proof (induction n)
  case 0
  then show ?case by simp
next
  case (Suc n)
  let ?b = "fold (\<lambda>i a. setXYZ a i (f i)) [0..<n] a"
  have len: "length ?b = length a" by (rule length_fold_setXYZ)
  show ?case
  proof (cases "i = n")
    case True
    have h: "n * 3 + 2 < length ?b" using Suc.prems len by simp
    show ?thesis
      using True setXYZ_nth_x [OF h, of "f n"] setXYZ_nth_y [OF h, of "f n"]
        setXYZ_nth_z [OF h, of "f n"] by simp
  next
    case False
    then have "i < n" using Suc.prems by simp
    moreover have "n * 3 \<le> length a" using Suc.prems by simp
    ultimately have ih: "?b ! (i * 3) = fst (f i) \<and> ?b ! (i * 3 + 1) = fst (snd (f i))
       \<and> ?b ! (i * 3 + 2) = snd (snd (f i))" by (rule Suc.IH)
    have lt: "i * 3 < n * 3" "i * 3 + 1 < n * 3" "i * 3 + 2 < n * 3" using \<open>i < n\<close> by simp_all
    show ?thesis
      using ih setXYZ_nth_other [OF lt(1), of ?b "f n"] setXYZ_nth_other [OF lt(2), of ?b "f n"]
        setXYZ_nth_other [OF lt(3), of ?b "f n"] by simp
  qed
qed

lemma moveNoise_live:
  assumes "geometry g = Some geo" and "simplex g = Some sx"
  shows "moveNoise p g ptr =
     g\<lparr>distortionTime := distortionTime g + mouseDistortionDecay g,
       geometry := Some (geo\<lparr>positionArray :=
          fold (\<lambda>i a. setXYZ a i
                  (moveVertex p (g\<lparr>distortionTime := distortionTime g + mouseDistortionDecay g\<rparr>) sx
                     (if mouseInteraction p then mx ptr else 0)
                     (if mouseInteraction p then my ptr else 0) i))
            [0..<count geo] (positionArray geo),
          positionNeedsUpdate := True\<rparr>),
       cycle := cycle g + speed g\<rparr>"
  using assms by (simp add: moveNoise_def Let_def)

lemma moveNoise_dead:
  "geometry g = None \<or> simplex g = None \<Longrightarrow> moveNoise p g ptr = g"
  by (auto simp: moveNoise_def split: option.splits)

lemma livePositions_moveNoise:
  assumes "geometry g = Some geo" and "simplex g = Some sx"
  shows "livePositions (moveNoise p g ptr) =
          fold (\<lambda>i a. setXYZ a i
                  (moveVertex p (g\<lparr>distortionTime := distortionTime g + mouseDistortionDecay g\<rparr>) sx
                     (if mouseInteraction p then mx ptr else 0)
                     (if mouseInteraction p then my ptr else 0) i))
            [0..<count geo] (positionArray geo)"
  by (simp add: moveNoise_live [OF assms] livePositions_def)

lemma vertex_moveNoise:
  assumes "geometry g = Some geo" and "simplex g = Some sx" and "i < count geo"
  shows "getX (livePositions (moveNoise p g ptr)) i =
           fst (moveVertex p (g\<lparr>distortionTime := distortionTime g + mouseDistortionDecay g\<rparr>) sx
                     (if mouseInteraction p then mx ptr else 0)
                     (if mouseInteraction p then my ptr else 0) i)
       \<and> getY (livePositions (moveNoise p g ptr)) i =
           fst (snd (moveVertex p (g\<lparr>distortionTime := distortionTime g + mouseDistortionDecay g\<rparr>) sx
                     (if mouseInteraction p then mx ptr else 0)
                     (if mouseInteraction p then my ptr else 0) i))
       \<and> getZ (livePositions (moveNoise p g ptr)) i =
           snd (snd (moveVertex p (g\<lparr>distortionTime := distortionTime g + mouseDistortionDecay g\<rparr>) sx
                     (if mouseInteraction p then mx ptr else 0)
                     (if mouseInteraction p then my ptr else 0) i))"
proof -
  have "count geo * 3 \<le> length (positionArray geo)"
    by (simp add: count_def)
  from fold_setXYZ_nth [OF assms(3) this] show ?thesis
    unfolding livePositions_moveNoise [OF assms(1,2)] getX_def getY_def getZ_def by blast
qed

lemma moveVertex_no_interaction:
  "\<not> mouseInteraction p \<Longrightarrow>
   moveVertex p g sx cx cy i =
     (originalPositions g ! (i * 3), originalPositions g ! (i * 3 + 1),
      sx (originalPositions g ! (i * 3) / factor g)
         (originalPositions g ! (i * 3 + 1) / factor g + cycle g) * scale g)"
  by (simp add: moveVertex_def Let_def)

lemma update_no_interaction:
  "\<not> mouseInteraction p \<Longrightarrow> update p g ptr = moveNoise p g ptr"
  by (simp add: update_def Let_def)

subsection \<open>The sample inputs\<close>

lemma sampleEngine_fields:
  "geometry sampleEngine = Some \<lparr>positionArray = samplePlane 4000 2000 128 64,
                           positionNeedsUpdate = False\<rparr>"
  "simplex sampleEngine = Some sampleNoise"
  "originalPositions sampleEngine = samplePlane 4000 2000 128 64"
  "factor sampleEngine = 300" "scale sampleEngine = 30" "cycle sampleEngine = 0"
  "speed sampleEngine = 0.015" "distortionTime sampleEngine = 0"
  "mouseDistortionDecay sampleEngine = 0.0005" "mouseDistortionStrength sampleEngine = 0.5"
  "mouseDistortionSmoothness sampleEngine = 100" "mouseShrinkScaleStrength sampleEngine = 0.7"
  "mouseShrinkScaleRadius sampleEngine = 200" "ease sampleEngine = 12"
  "move sampleEngine = \<lparr>vx = 0, vy = - 300, vz = - 1000\<rparr>"
  "look sampleEngine = \<lparr>ex = 29.8 * pi / 180, ey = 0, ez = 0\<rparr>"
  "group sampleEngine = Some \<lparr>position = \<lparr>vx = 0, vy = - 300, vz = - 1000\<rparr>,
                        rotation = \<lparr>ex = 29.8 * pi / 180, ey = 0, ez = 0\<rparr>,
                        holdsPlane = False\<rparr>"
  by (simp_all add: sampleEngine_def createGroundPlain_def defaultInputs_def)

lemma samplePlane_count:
  "count \<lparr>positionArray = samplePlane 4000 2000 128 64, positionNeedsUpdate = False\<rparr> = 3"
  by (simp add: count_def samplePlane_def)

lemma sampleHost_fields:
  "webglAvailable sampleHost" "planeGeometry sampleHost = samplePlane"
  "createNoise2D sampleHost = sampleNoise"
  "screenCenterX sampleHost = 640" "screenCenterY sampleHost = 360"
  by (simp_all add: sampleHost_def screenCenterX_def screenCenterY_def screenWidth_def
      screenHeight_def js_or_def)

lemma lowInputs_fields:
  "quality lowInputs = Low" "\<not> mouseInteraction lowInputs" "speed_in lowInputs = 0.015"
  "amplitude lowInputs = 30" "smoothness lowInputs = 300"
  by (simp_all add: lowInputs_def defaultInputs_def)

lemma sample_centre_height:
  "getZ (livePositions (moveNoise defaultInputs sampleEngine \<lparr>mx = 0, my = 0\<rparr>)) 1 = 3"
proof -
  have i: "1 < count \<lparr>positionArray = samplePlane 4000 2000 128 64, positionNeedsUpdate = False\<rparr>"
    by (simp add: samplePlane_count)
  show ?thesis
    using vertex_moveNoise [OF sampleEngine_fields(1) sampleEngine_fields(2) i,
        of defaultInputs "\<lparr>mx = 0, my = 0\<rparr>"]
    by (simp add: moveVertex_def sampleEngine_fields getX_def getY_def samplePlane_def
        defaultInputs_def rippleOffset_def sampleNoise_def Let_def)
qed

subsection \<open>The base wave and the pointer effects\<close>



text \<open>
  C3. With \<open>mouseInteraction\<close> false, \<^verbatim>\<open>moveNoise\<close> returns the same engine, and so
  the same buffer, for any two pointer values; every vertex keeps its original planar
  position and its height is the base wave alone.
\<close>

theorem moveNoise_ignores_pointer:
  assumes "\<not> mouseInteraction p"
  shows "moveNoise p g ptr1 = moveNoise p g ptr2
       \<and> (geometry g = Some geo \<and> simplex g = Some sx
            \<and> length (originalPositions g) = length (positionArray geo)
            \<and> i < count geo \<and> factor g \<noteq> 0 \<longrightarrow>
          getX (livePositions (moveNoise p g ptr1)) i = getX (originalPositions g) i
          \<and> getY (livePositions (moveNoise p g ptr1)) i = getY (originalPositions g) i
          \<and> getZ (livePositions (moveNoise p g ptr1)) i =
              sx (getX (originalPositions g) i / factor g)
                 (getY (originalPositions g) i / factor g + cycle g) * scale g)"
proof (intro conjI impI)
  show "moveNoise p g ptr1 = moveNoise p g ptr2"
    using assms by (simp add: moveNoise_def)
next
  assume a: "geometry g = Some geo \<and> simplex g = Some sx
            \<and> length (originalPositions g) = length (positionArray geo)
            \<and> i < count geo \<and> factor g \<noteq> 0"
  then have v: "geometry g = Some geo" "simplex g = Some sx" "i < count geo" by simp_all
  note vm = vertex_moveNoise [OF v, of p ptr1]
  show "getX (livePositions (moveNoise p g ptr1)) i = getX (originalPositions g) i"
    using vm assms by (simp add: moveVertex_no_interaction getX_def)
  show "getY (livePositions (moveNoise p g ptr1)) i = getY (originalPositions g) i"
    using vm assms by (simp add: moveVertex_no_interaction getY_def)
  show "getZ (livePositions (moveNoise p g ptr1)) i =
              sx (getX (originalPositions g) i / factor g)
                 (getY (originalPositions g) i / factor g + cycle g) * scale g"
    using vm assms by (simp add: moveVertex_no_interaction getX_def getY_def)
qed

text \<open>Two different pointers on the sample engine, and its first vertex.\<close>

theorem moveNoise_ignores_pointer_witness:
  "moveNoise (defaultInputs\<lparr>mouseInteraction := False\<rparr>) sampleEngine \<lparr>mx = 10, my = 20\<rparr>
     = moveNoise (defaultInputs\<lparr>mouseInteraction := False\<rparr>) sampleEngine \<lparr>mx = - 5, my = 7\<rparr>
   \<and> getX (livePositions (moveNoise (defaultInputs\<lparr>mouseInteraction := False\<rparr>) sampleEngine
             \<lparr>mx = 10, my = 20\<rparr>)) 0 = - 2000
   \<and> getY (livePositions (moveNoise (defaultInputs\<lparr>mouseInteraction := False\<rparr>) sampleEngine
             \<lparr>mx = 10, my = 20\<rparr>)) 0 = 1000
   \<and> getZ (livePositions (moveNoise (defaultInputs\<lparr>mouseInteraction := False\<rparr>) sampleEngine
             \<lparr>mx = 10, my = 20\<rparr>)) 0 = - 900 / 53"
proof -
  have n: "\<not> mouseInteraction (defaultInputs\<lparr>mouseInteraction := False\<rparr>)" by simp
  note t = moveNoise_ignores_pointer [OF n, of sampleEngine "\<lparr>mx = 10, my = 20\<rparr>"
        "\<lparr>mx = - 5, my = 7\<rparr>"
        "\<lparr>positionArray = samplePlane 4000 2000 128 64, positionNeedsUpdate = False\<rparr>"
        sampleNoise 0]
  have hyp: "geometry sampleEngine
        = Some \<lparr>positionArray = samplePlane 4000 2000 128 64, positionNeedsUpdate = False\<rparr>
      \<and> simplex sampleEngine = Some sampleNoise
      \<and> length (originalPositions sampleEngine)
        = length (positionArray \<lparr>positionArray = samplePlane 4000 2000 128 64,
                                  positionNeedsUpdate = False\<rparr>)
      \<and> 0 < count \<lparr>positionArray = samplePlane 4000 2000 128 64, positionNeedsUpdate = False\<rparr>
      \<and> factor sampleEngine \<noteq> 0"
    by (simp add: sampleEngine_fields samplePlane_count)
  have vals: "getX (originalPositions sampleEngine) 0 = - 2000"
    "getY (originalPositions sampleEngine) 0 = 1000"
    by (simp_all add: sampleEngine_fields getX_def getY_def samplePlane_def)
  note c = t [THEN conjunct2, rule_format, OF hyp, unfolded vals]
  have z: "getZ (livePositions (moveNoise (defaultInputs\<lparr>mouseInteraction := False\<rparr>) sampleEngine
             \<lparr>mx = 10, my = 20\<rparr>)) 0 = - 900 / 53"
    using c [THEN conjunct2, THEN conjunct2]
    by (simp add: sampleEngine_fields sampleNoise_def)
  show ?thesis
    by (intro conjI) (rule t [THEN conjunct1], rule c [THEN conjunct1],
        rule c [THEN conjunct2, THEN conjunct1], rule z)
qed

lemma shrinkFalloff_decreasing:
  assumes "0 < radius" and "0 \<le> d1" and "d1 < d2" and "d2 \<le> radius"
  shows "shrinkFalloff radius d2 < shrinkFalloff radius d1"
proof -
  have lt: "d1 < radius" using assms by simp
  have a: "0 \<le> 1 - d2 / radius" using assms by simp
  have b: "1 - d2 / radius < 1 - d1 / radius"
    using assms by (simp add: divide_strict_right_mono)
  have sq: "(1 - d2 / radius)\<^sup>2 < (1 - d1 / radius)\<^sup>2"
    by (rule power_strict_mono [OF b a]) simp
  show ?thesis
  proof (cases "d2 < radius")
    case True
    then show ?thesis using lt sq by (simp add: shrinkFalloff_def)
  next
    case False
    then have "d2 = radius" using assms by simp
    then have "(1 - d2 / radius)\<^sup>2 = 0" using assms by simp
    then show ?thesis using False lt sq by (simp add: shrinkFalloff_def)
  qed
qed

text \<open>
  C4. For a positive shrink radius, the falloff is \<open>1\<close> at distance \<open>0\<close>, \<open>0\<close> at every
  distance from the radius on, \<open>(1 - d / radius)\<^sup>2\<close> in between, and strictly decreasing
  on \<open>[0, radius]\<close>; a vertex the shrink effect applies to ends at its original position
  minus \<open>(dx, dy) * strength * falloff\<close>, where \<open>(dx, dy)\<close> is its offset from the pointer.
\<close>

theorem shrink_falloff_shape:
  assumes "0 < radius"
  shows "shrinkFalloff radius 0 = 1
       \<and> (\<forall>d. radius \<le> d \<longrightarrow> shrinkFalloff radius d = 0)
       \<and> (\<forall>d. 0 \<le> d \<and> d < radius \<longrightarrow> shrinkFalloff radius d = (1 - d / radius)\<^sup>2)
       \<and> (\<forall>d1 d2. 0 \<le> d1 \<and> d1 < d2 \<and> d2 \<le> radius \<longrightarrow>
            shrinkFalloff radius d2 < shrinkFalloff radius d1)
       \<and> (mouseInteraction p \<and> 0 < mouseShrinkScaleStrength g
            \<and> mouseShrinkScaleRadius g = radius
            \<and> geometry g = Some geo \<and> simplex g = Some sx \<and> i < count geo \<longrightarrow>
          getX (livePositions (moveNoise p g ptr)) i =
            getX (originalPositions g) i
            - (getX (originalPositions g) i - mx ptr) * mouseShrinkScaleStrength g
              * shrinkFalloff radius
                  (sqrt ((getX (originalPositions g) i - mx ptr) * (getX (originalPositions g) i - mx ptr)
                       + (getY (originalPositions g) i - my ptr) * (getY (originalPositions g) i - my ptr)))
          \<and> getY (livePositions (moveNoise p g ptr)) i =
            getY (originalPositions g) i
            - (getY (originalPositions g) i - my ptr) * mouseShrinkScaleStrength g
              * shrinkFalloff radius
                  (sqrt ((getX (originalPositions g) i - mx ptr) * (getX (originalPositions g) i - mx ptr)
                       + (getY (originalPositions g) i - my ptr) * (getY (originalPositions g) i - my ptr))))"
proof (intro conjI allI impI)
  show "shrinkFalloff radius 0 = 1" using assms by (simp add: shrinkFalloff_def)
next
  fix d assume "radius \<le> d"
  then show "shrinkFalloff radius d = 0" by (simp add: shrinkFalloff_def)
next
  fix d assume "0 \<le> d \<and> d < radius"
  then show "shrinkFalloff radius d = (1 - d / radius)\<^sup>2" by (simp add: shrinkFalloff_def)
next
  fix d1 d2 assume "0 \<le> d1 \<and> d1 < d2 \<and> d2 \<le> radius"
  then show "shrinkFalloff radius d2 < shrinkFalloff radius d1"
    using assms shrinkFalloff_decreasing by blast
next
  assume a: "mouseInteraction p \<and> 0 < mouseShrinkScaleStrength g
            \<and> mouseShrinkScaleRadius g = radius
            \<and> geometry g = Some geo \<and> simplex g = Some sx \<and> i < count geo"
  then have v: "geometry g = Some geo" "simplex g = Some sx" "i < count geo" by simp_all
  note vm = vertex_moveNoise [OF v, of p ptr]
  show "getX (livePositions (moveNoise p g ptr)) i =
            getX (originalPositions g) i
            - (getX (originalPositions g) i - mx ptr) * mouseShrinkScaleStrength g
              * shrinkFalloff radius
                  (sqrt ((getX (originalPositions g) i - mx ptr) * (getX (originalPositions g) i - mx ptr)
                       + (getY (originalPositions g) i - my ptr) * (getY (originalPositions g) i - my ptr)))"
    using vm a by (simp add: moveVertex_def shrinkXY_def Let_def getX_def getY_def)
  show "getY (livePositions (moveNoise p g ptr)) i =
            getY (originalPositions g) i
            - (getY (originalPositions g) i - my ptr) * mouseShrinkScaleStrength g
              * shrinkFalloff radius
                  (sqrt ((getX (originalPositions g) i - mx ptr) * (getX (originalPositions g) i - mx ptr)
                       + (getY (originalPositions g) i - my ptr) * (getY (originalPositions g) i - my ptr)))"
    using vm a by (simp add: moveVertex_def shrinkXY_def Let_def getX_def getY_def)
qed

text \<open>Radius 200, and the centre vertex with the pointer at distance 50 from it.\<close>

theorem shrink_falloff_shape_witness:
  "shrinkFalloff 200 0 = 1 \<and> shrinkFalloff 200 200 = 0 \<and> shrinkFalloff 200 300 = 0
   \<and> shrinkFalloff 200 100 = 1 / 4 \<and> shrinkFalloff 200 100 < shrinkFalloff 200 50
   \<and> getX (livePositions (moveNoise defaultInputs sampleEngine \<lparr>mx = 30, my = 40\<rparr>)) 1 = 189 / 16
   \<and> getY (livePositions (moveNoise defaultInputs sampleEngine \<lparr>mx = 30, my = 40\<rparr>)) 1 = 63 / 4"
proof -
  have r: "(0::real) < 200" by simp
  have sq: "sqrt 2500 = 50" by (rule real_sqrt_unique) simp_all
  note t = shrink_falloff_shape [OF r, of defaultInputs sampleEngine
      "\<lparr>positionArray = samplePlane 4000 2000 128 64, positionNeedsUpdate = False\<rparr>"
      sampleNoise 1 "\<lparr>mx = 30, my = 40\<rparr>"]
  note t1 = t [THEN conjunct1]
  note t2 = t [THEN conjunct2, THEN conjunct1, rule_format]
  note t3 = t [THEN conjunct2, THEN conjunct2, THEN conjunct1, rule_format]
  note t4 = t [THEN conjunct2, THEN conjunct2, THEN conjunct2, THEN conjunct1, rule_format]
  note t5 = t [THEN conjunct2, THEN conjunct2, THEN conjunct2, THEN conjunct2, rule_format]
  have b: "shrinkFalloff 200 200 = 0" "shrinkFalloff 200 300 = 0"
    by (rule t2, simp)+
  have "shrinkFalloff 200 100 = (1 - 100 / 200)\<^sup>2" by (rule t3) simp
  then have c: "shrinkFalloff 200 100 = 1 / 4" by (simp add: power2_eq_square)
  have "shrinkFalloff 200 50 = (1 - 50 / 200)\<^sup>2" by (rule t3) simp
  then have c': "shrinkFalloff 200 50 = 9 / 16" by (simp add: power2_eq_square)
  have d: "shrinkFalloff 200 100 < shrinkFalloff 200 50" by (rule t4) simp
  have hyp: "mouseInteraction defaultInputs \<and> 0 < mouseShrinkScaleStrength sampleEngine
      \<and> mouseShrinkScaleRadius sampleEngine = 200
      \<and> geometry sampleEngine
        = Some \<lparr>positionArray = samplePlane 4000 2000 128 64, positionNeedsUpdate = False\<rparr>
      \<and> simplex sampleEngine = Some sampleNoise
      \<and> 1 < count \<lparr>positionArray = samplePlane 4000 2000 128 64, positionNeedsUpdate = False\<rparr>"
    by (simp add: sampleEngine_fields samplePlane_count defaultInputs_def)
  have vals: "getX (originalPositions sampleEngine) 1 = 0"
    "getY (originalPositions sampleEngine) 1 = 0"
    by (simp_all add: sampleEngine_fields getX_def getY_def samplePlane_def)
  have e: "getX (livePositions (moveNoise defaultInputs sampleEngine \<lparr>mx = 30, my = 40\<rparr>)) 1 = 189 / 16
    \<and> getY (livePositions (moveNoise defaultInputs sampleEngine \<lparr>mx = 30, my = 40\<rparr>)) 1 = 63 / 4"
    using t5 [OF hyp] unfolding vals by (simp add: sq c' sampleEngine_fields)
  show ?thesis using t1 b c d e by (intro conjI) simp_all
qed

text \<open>
  C5, as the code has it. On a live engine every call of \<^verbatim>\<open>moveNoise\<close> advances
  \<open>cycle\<close> by \<open>speed\<close> once and \<open>distortionTime\<close> by \<open>mouseDistortionDecay\<close> once,
  whatever the number of vertices. \<open>distortionTime\<close> is advanced before the vertices are
  processed, so the ripple of that call is sampled at the advanced value
  \<open>(distortionTime + mouseDistortionDecay) * 1000\<close>; \<open>cycle\<close> is advanced after them, so
  the base wave is sampled at the value from before the call (the heights are stated for
  divisors other than zero). On an engine without
  geometry or noise function the call changes nothing.
\<close>

theorem moveNoise_clocks:
  "(geometry g = Some geo \<and> simplex g = Some sx \<longrightarrow>
      cycle (moveNoise p g ptr) = cycle g + speed g
      \<and> distortionTime (moveNoise p g ptr) = distortionTime g + mouseDistortionDecay g
      \<and> (i < count geo \<and> mouseInteraction p \<and> 0 < mouseDistortionStrength g
           \<and> factor g \<noteq> 0 \<and> mouseDistortionSmoothness g \<noteq> 0
           \<and> mouseShrinkScaleRadius g \<noteq> 0 \<longrightarrow>
           getZ (livePositions (moveNoise p g ptr)) i =
             sx (getX (originalPositions g) i / factor g)
                (getY (originalPositions g) i / factor g + cycle g) * scale g
             + sx ((getX (originalPositions g) i - mx ptr * 0.5) / mouseDistortionSmoothness g
                    + (distortionTime g + mouseDistortionDecay g) * 1000)
                  ((getY (originalPositions g) i - my ptr * 0.5) / mouseDistortionSmoothness g
                    - (distortionTime g + mouseDistortionDecay g) * 1000)
               * mouseDistortionStrength g * scale g
               * max 0 (1 - sqrt ((getX (originalPositions g) i - mx ptr * 0.5)
                                    * (getX (originalPositions g) i - mx ptr * 0.5)
                                  + (getY (originalPositions g) i - my ptr * 0.5)
                                    * (getY (originalPositions g) i - my ptr * 0.5))
                              / (mouseShrinkScaleRadius g * 2))))
   \<and> (geometry g = None \<or> simplex g = None \<longrightarrow> moveNoise p g ptr = g)"
proof (intro conjI impI)
  assume a: "geometry g = Some geo \<and> simplex g = Some sx"
  then have v: "geometry g = Some geo" "simplex g = Some sx" by simp_all
  show "cycle (moveNoise p g ptr) = cycle g + speed g"
    by (simp add: moveNoise_live [OF v])
  show "distortionTime (moveNoise p g ptr) = distortionTime g + mouseDistortionDecay g"
    by (simp add: moveNoise_live [OF v])
next
  assume a: "geometry g = Some geo \<and> simplex g = Some sx"
    and b: "i < count geo \<and> mouseInteraction p \<and> 0 < mouseDistortionStrength g
           \<and> factor g \<noteq> 0 \<and> mouseDistortionSmoothness g \<noteq> 0
           \<and> mouseShrinkScaleRadius g \<noteq> 0"
  from a b have v: "geometry g = Some geo" "simplex g = Some sx" "i < count geo" by simp_all
  show "getZ (livePositions (moveNoise p g ptr)) i =
             sx (getX (originalPositions g) i / factor g)
                (getY (originalPositions g) i / factor g + cycle g) * scale g
             + sx ((getX (originalPositions g) i - mx ptr * 0.5) / mouseDistortionSmoothness g
                    + (distortionTime g + mouseDistortionDecay g) * 1000)
                  ((getY (originalPositions g) i - my ptr * 0.5) / mouseDistortionSmoothness g
                    - (distortionTime g + mouseDistortionDecay g) * 1000)
               * mouseDistortionStrength g * scale g
               * max 0 (1 - sqrt ((getX (originalPositions g) i - mx ptr * 0.5)
                                    * (getX (originalPositions g) i - mx ptr * 0.5)
                                  + (getY (originalPositions g) i - my ptr * 0.5)
                                    * (getY (originalPositions g) i - my ptr * 0.5))
                              / (mouseShrinkScaleRadius g * 2))"
    using vertex_moveNoise [OF v, of p ptr] b
    by (simp add: moveVertex_def rippleOffset_def Let_def getX_def getY_def)
next
  assume "geometry g = None \<or> simplex g = None"
  then show "moveNoise p g ptr = g" by (rule moveNoise_dead)
qed

text \<open>The sample engine, live and disposed.\<close>

theorem moveNoise_clocks_witness:
  "cycle (moveNoise defaultInputs sampleEngine \<lparr>mx = 0, my = 0\<rparr>) = 3 / 200
   \<and> distortionTime (moveNoise defaultInputs sampleEngine \<lparr>mx = 0, my = 0\<rparr>) = 1 / 2000
   \<and> getZ (livePositions (moveNoise defaultInputs sampleEngine \<lparr>mx = 0, my = 0\<rparr>)) 1 = 3
   \<and> moveNoise defaultInputs (dispose sampleEngine) \<lparr>mx = 0, my = 0\<rparr> = dispose sampleEngine"
proof -
  note t = moveNoise_clocks [of sampleEngine
      "\<lparr>positionArray = samplePlane 4000 2000 128 64, positionNeedsUpdate = False\<rparr>"
      sampleNoise defaultInputs "\<lparr>mx = 0, my = 0\<rparr>" 1]
  have live: "geometry sampleEngine
        = Some \<lparr>positionArray = samplePlane 4000 2000 128 64, positionNeedsUpdate = False\<rparr>
      \<and> simplex sampleEngine = Some sampleNoise"
    by (simp add: sampleEngine_fields)
  note c = t [THEN conjunct1, rule_format, OF live]
  have hyp: "1 < count \<lparr>positionArray = samplePlane 4000 2000 128 64, positionNeedsUpdate = False\<rparr>
      \<and> mouseInteraction defaultInputs \<and> 0 < mouseDistortionStrength sampleEngine
      \<and> factor sampleEngine \<noteq> 0 \<and> mouseDistortionSmoothness sampleEngine \<noteq> 0
      \<and> mouseShrinkScaleRadius sampleEngine \<noteq> 0"
    by (simp add: sampleEngine_fields samplePlane_count defaultInputs_def)
  have c1: "cycle (moveNoise defaultInputs sampleEngine \<lparr>mx = 0, my = 0\<rparr>) = 3 / 200"
    using c [THEN conjunct1] by (simp add: sampleEngine_fields)
  have c2: "distortionTime (moveNoise defaultInputs sampleEngine \<lparr>mx = 0, my = 0\<rparr>) = 1 / 2000"
    using c [THEN conjunct2, THEN conjunct1] by (simp add: sampleEngine_fields)
  have c3: "getZ (livePositions (moveNoise defaultInputs sampleEngine \<lparr>mx = 0, my = 0\<rparr>)) 1 = 3"
    using c [THEN conjunct2, THEN conjunct2, rule_format, OF hyp]
    by (simp add: sampleEngine_fields getX_def getY_def samplePlane_def sampleNoise_def)
  have d: "geometry (dispose sampleEngine) = None \<or> simplex (dispose sampleEngine) = None"
    by (simp add: dispose_def)
  have c4: "moveNoise defaultInputs (dispose sampleEngine) \<lparr>mx = 0, my = 0\<rparr> = dispose sampleEngine"
    using moveNoise_clocks [of "dispose sampleEngine" geo sx defaultInputs "\<lparr>mx = 0, my = 0\<rparr>" i,
        THEN conjunct2, rule_format, OF d] .
  show ?thesis using c1 c2 c3 c4 by (intro conjI)
qed

text \<open>
  C5 as stated fails: on the sample engine the height of the centre vertex after the call
  is not the base wave plus the ripple sampled at the \<open>distortionTime\<close> from before the
  call.
\<close>

theorem moveNoise_clocks_counterexample:
  "getZ (livePositions (moveNoise defaultInputs sampleEngine \<lparr>mx = 0, my = 0\<rparr>)) 1
     \<noteq> sampleNoise (getX (originalPositions sampleEngine) 1 / factor sampleEngine)
          (getY (originalPositions sampleEngine) 1 / factor sampleEngine + cycle sampleEngine)
          * scale sampleEngine
        + rippleOffset sampleEngine sampleNoise 0 0
            (getX (originalPositions sampleEngine) 1) (getY (originalPositions sampleEngine) 1)"
  unfolding sample_centre_height
  by (simp add: sampleEngine_fields getX_def getY_def samplePlane_def rippleOffset_def
      sampleNoise_def Let_def)

subsection \<open>Easing\<close>

text \<open>The doubles of two easing steps, operation by operation.\<close>

lemma fl_07: "fl (7 / 10) = 3152519739159347 / 2 ^ 52"
  by (subst fl_eval [of "- 1"]) (simp_all add: power_int_minus roundEven_def Let_def)

lemma fl_01: "fl (1 / 10) = 3602879701896397 / 2 ^ 55"
  by (subst fl_eval [of "- 4"]) (simp_all add: power_int_minus roundEven_def Let_def)

lemma ease1_d: "fl (3602879701896397 / 2 ^ 55 - 3152519739159347 / 2 ^ 52) = - 5404319552844595 / 2 ^ 53"
  by (subst fl_eval [of "- 1"]) (simp_all add: power_int_minus roundEven_def Let_def)

lemma ease1_s: "fl ((- 5404319552844595 / 2 ^ 53) / 1) = - 5404319552844595 / 2 ^ 53"
  by (subst fl_eval [of "- 1"]) (simp_all add: power_int_minus roundEven_def Let_def)

lemma ease1_r: "fl (3152519739159347 / 2 ^ 52 + (- 5404319552844595 / 2 ^ 53)) = 900719925474099 / 2 ^ 53"
  by (subst fl_eval [of "- 4"]) (simp_all add: power_int_minus roundEven_def Let_def)

lemma ease1_value: "easeStep (fl (7 / 10)) (fl (1 / 10)) 1 = 900719925474099 / 2 ^ 53"
  unfolding easeStep_def fl_07 fl_01 ease1_d ease1_s ease1_r by (rule refl)

lemma ease1_miss: "easeStep (fl (7 / 10)) (fl (1 / 10)) 1 \<noteq> fl (1 / 10)"
  by (subst ease1_value, subst fl_01) simp

lemma fl_2856: "fl (- (2856 / 10)) = - 2512164167142605 / 2 ^ 43"
  by (subst fl_eval [of "8"]) (simp_all add: power_int_minus roundEven_def Let_def)

lemma ease12_d: "fl ((- 2512164167142605 / 2 ^ 43) - (- 300)) = 126663739519795 / 2 ^ 43"
  by (subst fl_eval [of "3"]) (simp_all add: power_int_minus roundEven_def Let_def)

lemma ease12_s: "fl ((126663739519795 / 2 ^ 43) / 12) = 5404319552844587 / 2 ^ 52"
  by (subst fl_eval [of "0"]) (simp_all add: power_int_minus roundEven_def Let_def)

lemma ease12_r: "fl (- 300 + 5404319552844587 / 2 ^ 52) = - 5256545190071501 / 2 ^ 44"
  by (subst fl_eval [of "8"]) (simp_all add: power_int_minus roundEven_def Let_def)

lemma ease12_value: "easeStep (- 300) (fl (- (2856 / 10))) 12 = - 5256545190071501 / 2 ^ 44"
  unfolding easeStep_def fl_2856 ease12_d ease12_s ease12_r by (rule refl)

lemma ease12_miss:
  "easeStep (- 300) (fl (- (2856 / 10))) 12 - (- 300) \<noteq> (fl (- (2856 / 10)) - (- 300)) / 12"
  by (subst ease12_value, subst fl_2856) simp

lemma fl_15: "fl (15) = 15"
  by (subst fl_eval [of "3"]) (simp_all add: power_int_minus roundEven_def Let_def)

lemma fl_m285: "fl (- 285) = - 285"
  by (subst fl_eval [of "8"]) (simp_all add: power_int_minus roundEven_def Let_def)

lemma fl_004: "fl (4 / 100) = 5764607523034235 / 2 ^ 57"
  by (subst fl_eval [of "- 5"]) (simp_all add: power_int_minus roundEven_def Let_def)

lemma target_x: "fl (100 * (5764607523034235 / 2 ^ 57)) = 4"
  by (subst fl_eval [of "2"]) (simp_all add: power_int_minus roundEven_def Let_def)

lemma target_p: "fl (50 * (5764607523034235 / 2 ^ 57)) = 2"
  by (subst fl_eval [of "1"]) (simp_all add: power_int_minus roundEven_def Let_def)

lemma target_y: "fl (- 300 + 2) = - 298"
  by (subst fl_eval [of "8"]) (simp_all add: power_int_minus roundEven_def Let_def)

lemma sample_targets:
  "- fl (100 * fl (4 / 100)) = - 4" "fl (- 300 + fl (50 * fl (4 / 100))) = - 298"
  unfolding fl_004 target_x target_p target_y by (rule refl)+

text \<open>
  C6, as doubles have it. For a non-zero \<open>ease\<close>, \<^verbatim>\<open>addEase\<close> and \<^verbatim>\<open>addEaseEuler\<close>
  set every axis of the position and of the rotation, each on its own and with no
  clamping, to \<open>current + (target - current) / ease\<close>, the subtraction, the division and
  the addition each rounded to binary64. For an \<open>ease\<close> of magnitude at least \<open>1\<close> the
  new value is within \<open>(\<bar>current\<bar> + 4 \<bar>target - current\<bar>) / 2\<^sup>5\<^sup>3\<close>, and five times the
  smallest rounding step, of the exact \<open>current + (target - current) / ease\<close>. With
  \<open>ease = 1\<close> it is the target when the target is a double and \<open>target - current\<close> is
  computed without rounding. This is the step \<^verbatim>\<open>update\<close> applies to the group, towards
  \<open>move\<close>, with its \<open>x\<close> and \<open>y\<close> set from the pointer, and \<open>look\<close>.
\<close>

theorem ease_step:
  "(e \<noteq> 0 \<longrightarrow>
        addEase pos to e =
          \<lparr>vx = fl (vx pos + fl (fl (vx to - vx pos) / e)),
           vy = fl (vy pos + fl (fl (vy to - vy pos) / e)),
           vz = fl (vz pos + fl (fl (vz to - vz pos) / e))\<rparr>
        \<and> addEaseEuler rot to' e =
          \<lparr>ex = fl (ex rot + fl (fl (ex to' - ex rot) / e)),
           ey = fl (ey rot + fl (fl (ey to' - ey rot) / e)),
           ez = fl (ez rot + fl (fl (ez to' - ez rot) / e))\<rparr>
        \<and> easeStep c t e = fl (c + fl (fl (t - c) / e)))
   \<and> (1 \<le> \<bar>e\<bar> \<and> \<bar>c\<bar> \<le> 2 powi 1000 \<and> \<bar>t\<bar> \<le> 2 powi 1000 \<longrightarrow>
        \<bar>easeStep c t e - (c + (t - c) / e)\<bar>
          \<le> (\<bar>c\<bar> + 4 * \<bar>t - c\<bar>) / 2 ^ 53 + 5 * 2 powi (- 1075))
   \<and> (fl (t - c) = t - c \<and> fl t = t \<and> \<bar>c\<bar> \<le> 2 powi 1000 \<and> \<bar>t\<bar> \<le> 2 powi 1000 \<longrightarrow>
        easeStep c t 1 = t)
   \<and> (mouseInteraction p \<and> group g = Some grp \<and> ease g \<noteq> 0 \<longrightarrow>
        group (update p g ptr) =
          Some (grp\<lparr>position := addEase (position grp)
                                  ((move g)\<lparr>vx := - fl (mx ptr * fl (4 / 100)),
                                            vy := fl (waveOffsetY p
                                                      + fl (my ptr * fl (4 / 100)))\<rparr>)
                                  (ease g),
                     rotation := addEaseEuler (rotation grp) (look g) (ease g)\<rparr>))"
proof (intro conjI impI)
  show "addEase pos to e =
          \<lparr>vx = fl (vx pos + fl (fl (vx to - vx pos) / e)),
           vy = fl (vy pos + fl (fl (vy to - vy pos) / e)),
           vz = fl (vz pos + fl (fl (vz to - vz pos) / e))\<rparr>"
    by (simp add: addEase_def easeStep_def)
  show "addEaseEuler rot to' e =
          \<lparr>ex = fl (ex rot + fl (fl (ex to' - ex rot) / e)),
           ey = fl (ey rot + fl (fl (ey to' - ey rot) / e)),
           ez = fl (ez rot + fl (fl (ez to' - ez rot) / e))\<rparr>"
    by (simp add: addEaseEuler_def easeStep_def)
  show "easeStep c t e = fl (c + fl (fl (t - c) / e))"
    by (simp add: easeStep_def)
next
  assume "1 \<le> \<bar>e\<bar> \<and> \<bar>c\<bar> \<le> 2 powi 1000 \<and> \<bar>t\<bar> \<le> 2 powi 1000"
  then have "1 \<le> \<bar>e\<bar>" by (rule conjunct1)
  then show "\<bar>easeStep c t e - (c + (t - c) / e)\<bar>
          \<le> (\<bar>c\<bar> + 4 * \<bar>t - c\<bar>) / 2 ^ 53 + 5 * 2 powi (- 1075)"
    by (rule easeStep_bound)
next
  assume a: "fl (t - c) = t - c \<and> fl t = t \<and> \<bar>c\<bar> \<le> 2 powi 1000 \<and> \<bar>t\<bar> \<le> 2 powi 1000"
  show "easeStep c t 1 = t"
    by (rule easeStep_exact) (use a in blast)+
next
  assume a: "mouseInteraction p \<and> group g = Some grp \<and> ease g \<noteq> 0"
  have grp: "group (moveNoise p g ptr) = group g" "move (moveNoise p g ptr) = move g"
    "look (moveNoise p g ptr) = look g" "ease (moveNoise p g ptr) = ease g"
    by (simp_all add: moveNoise_def Let_def split: option.splits)
  show "group (update p g ptr) =
          Some (grp\<lparr>position := addEase (position grp)
                                  ((move g)\<lparr>vx := - fl (mx ptr * fl (4 / 100)),
                                            vy := fl (waveOffsetY p
                                                      + fl (my ptr * fl (4 / 100)))\<rparr>)
                                  (ease g),
                     rotation := addEaseEuler (rotation grp) (look g) (ease g)\<rparr>)"
    using a by (simp add: update_def Let_def grp)
qed

text \<open>
  A step of ease \<open>12\<close> from \<open>-300\<close> towards the double nearest to \<open>-285.6\<close>, a step of
  ease \<open>1\<close> from \<open>-300\<close> to \<open>-285\<close>, and one \<^verbatim>\<open>update\<close> of the sample engine.
\<close>

theorem ease_step_witness:
  "easeStep (- 300) (fl (- (2856 / 10))) 12
     = fl (- 300 + fl (fl (fl (- (2856 / 10)) - - 300) / 12))
   \<and> addEase \<lparr>vx = - 300, vy = 0, vz = - 1000\<rparr> \<lparr>vx = fl (- (2856 / 10)), vy = 0, vz = 15\<rparr> 12
     = \<lparr>vx = fl (- 300 + fl (fl (fl (- (2856 / 10)) - - 300) / 12)),
        vy = fl (0 + fl (fl (0 - 0) / 12)),
        vz = fl (- 1000 + fl (fl (15 - - 1000) / 12))\<rparr>
   \<and> \<bar>easeStep (- 300) (fl (- (2856 / 10))) 12 - (- 300 + (fl (- (2856 / 10)) - - 300) / 12)\<bar>
     \<le> (\<bar>- 300\<bar> + 4 * \<bar>fl (- (2856 / 10)) - - 300\<bar>) / 2 ^ 53 + 5 * 2 powi (- 1075)
   \<and> easeStep (- 300) (- 285) 1 = - 285
   \<and> - fl (100 * fl (4 / 100)) = - 4 \<and> fl (- 300 + fl (50 * fl (4 / 100))) = - 298
   \<and> group (update defaultInputs sampleEngine \<lparr>mx = 100, my = 50\<rparr>) =
       Some \<lparr>position = addEase \<lparr>vx = 0, vy = - 300, vz = - 1000\<rparr>
                           \<lparr>vx = - fl (100 * fl (4 / 100)),
                            vy = fl (- 300 + fl (50 * fl (4 / 100))), vz = - 1000\<rparr> 12,
             rotation = addEaseEuler \<lparr>ex = 29.8 * pi / 180, ey = 0, ez = 0\<rparr>
                           \<lparr>ex = 29.8 * pi / 180, ey = 0, ez = 0\<rparr> 12,
             holdsPlane = False\<rparr>"
proof -
  have h0: "(12::real) \<noteq> 0" by simp
  note f = ease_step [of 12 "\<lparr>vx = - 300, vy = 0, vz = - 1000\<rparr>"
      "\<lparr>vx = fl (- (2856 / 10)), vy = 0, vz = 15\<rparr>" _ _ "- 300" "fl (- (2856 / 10))",
      THEN conjunct1, rule_format, OF h0]
  have z: "easeStep (- 300) (fl (- (2856 / 10))) 12
     = fl (- 300 + fl (fl (fl (- (2856 / 10)) - - 300) / 12))"
    by (rule f [THEN conjunct2, THEN conjunct2])
  have y: "addEase \<lparr>vx = - 300, vy = 0, vz = - 1000\<rparr>
       \<lparr>vx = fl (- (2856 / 10)), vy = 0, vz = 15\<rparr> 12
     = \<lparr>vx = fl (- 300 + fl (fl (fl (- (2856 / 10)) - - 300) / 12)),
        vy = fl (0 + fl (fl (0 - 0) / 12)),
        vz = fl (- 1000 + fl (fl (15 - - 1000) / 12))\<rparr>"
    using f [THEN conjunct1] unfolding vec3.select_convs .
  have h1: "1 \<le> \<bar>12::real\<bar> \<and> \<bar>- 300::real\<bar> \<le> 2 powi 1000
      \<and> \<bar>fl (- (2856 / 10))\<bar> \<le> 2 powi 1000"
    unfolding fl_2856 by simp
  have a: "\<bar>easeStep (- 300) (fl (- (2856 / 10))) 12
        - (- 300 + (fl (- (2856 / 10)) - - 300) / 12)\<bar>
     \<le> (\<bar>- 300\<bar> + 4 * \<bar>fl (- (2856 / 10)) - - 300\<bar>) / 2 ^ 53 + 5 * 2 powi (- 1075)"
    by (rule ease_step [of 12 _ _ _ _ "- 300" "fl (- (2856 / 10))",
          THEN conjunct2, THEN conjunct1, rule_format, OF h1])
  have h2: "fl (- 285 - - 300) = - 285 - - 300 \<and> fl (- 285) = - 285
      \<and> \<bar>- 300::real\<bar> \<le> 2 powi 1000 \<and> \<bar>- 285::real\<bar> \<le> 2 powi 1000"
    by (simp add: fl_15 fl_m285)
  have b: "easeStep (- 300) (- 285) 1 = - 285"
    by (rule ease_step [of _ _ _ _ _ "- 300" "- 285",
          THEN conjunct2, THEN conjunct2, THEN conjunct1, rule_format, OF h2])
  have h3: "mouseInteraction defaultInputs
      \<and> group sampleEngine = Some \<lparr>position = \<lparr>vx = 0, vy = - 300, vz = - 1000\<rparr>,
                        rotation = \<lparr>ex = 29.8 * pi / 180, ey = 0, ez = 0\<rparr>,
                        holdsPlane = False\<rparr>
      \<and> ease sampleEngine \<noteq> 0"
    by (simp add: sampleEngine_fields defaultInputs_def)
  have c: "group (update defaultInputs sampleEngine \<lparr>mx = 100, my = 50\<rparr>) =
       Some \<lparr>position = addEase \<lparr>vx = 0, vy = - 300, vz = - 1000\<rparr>
                           \<lparr>vx = - fl (100 * fl (4 / 100)),
                            vy = fl (- 300 + fl (50 * fl (4 / 100))), vz = - 1000\<rparr> 12,
             rotation = addEaseEuler \<lparr>ex = 29.8 * pi / 180, ey = 0, ez = 0\<rparr>
                           \<lparr>ex = 29.8 * pi / 180, ey = 0, ez = 0\<rparr> 12,
             holdsPlane = False\<rparr>"
    using ease_step [of _ _ _ _ _ _ _ defaultInputs sampleEngine _ "\<lparr>mx = 100, my = 50\<rparr>",
          THEN conjunct2, THEN conjunct2, THEN conjunct2, rule_format, OF h3]
    by (simp add: sampleEngine_fields defaultInputs_def)
  show ?thesis using z y a b sample_targets c by (intro conjI)
qed

text \<open>
  C6 as stated fails in binary64. From \<open>0.7\<close> towards \<open>0.1\<close> with \<open>ease = 1\<close> the step
  ends at \<open>0.09999999999999998\<close>, not on the target; from \<open>-300\<close> towards \<open>-285.6\<close> with
  \<open>ease = 12\<close> the value does not move by a twelfth of the remaining distance.
\<close>

theorem ease_step_counterexample:
  "addEase \<lparr>vx = fl (7 / 10), vy = 0, vz = 0\<rparr> \<lparr>vx = fl (1 / 10), vy = 0, vz = 0\<rparr> 1
     \<noteq> \<lparr>vx = fl (1 / 10), vy = 0, vz = 0\<rparr>
   \<and> vx (addEase \<lparr>vx = - 300, vy = 0, vz = 0\<rparr> \<lparr>vx = fl (- (2856 / 10)), vy = 0, vz = 0\<rparr> 12)
         - (- 300)
     \<noteq> (fl (- (2856 / 10)) - (- 300)) / 12"
proof -
  have a: "vx (addEase \<lparr>vx = fl (7 / 10), vy = 0, vz = 0\<rparr> \<lparr>vx = fl (1 / 10), vy = 0, vz = 0\<rparr> 1)
      = easeStep (fl (7 / 10)) (fl (1 / 10)) 1"
    unfolding addEase_def vec3.select_convs by (rule refl)
  have b: "vx (addEase \<lparr>vx = - 300, vy = 0, vz = 0\<rparr> \<lparr>vx = fl (- (2856 / 10)), vy = 0, vz = 0\<rparr> 12)
      = easeStep (- 300) (fl (- (2856 / 10))) 12"
    unfolding addEase_def vec3.select_convs by (rule refl)
  have "vx (addEase \<lparr>vx = fl (7 / 10), vy = 0, vz = 0\<rparr> \<lparr>vx = fl (1 / 10), vy = 0, vz = 0\<rparr> 1)
      \<noteq> vx \<lparr>vx = fl (1 / 10), vy = 0, vz = 0\<rparr>"
    unfolding a vec3.select_convs by (rule ease1_miss)
  then have c: "addEase \<lparr>vx = fl (7 / 10), vy = 0, vz = 0\<rparr> \<lparr>vx = fl (1 / 10), vy = 0, vz = 0\<rparr> 1
     \<noteq> \<lparr>vx = fl (1 / 10), vy = 0, vz = 0\<rparr>" by metis
  show ?thesis using c ease12_miss unfolding b by (intro conjI)
qed

subsection \<open>Colour resolution\<close>





































subsection \<open>Setup, ticks and teardown\<close>

lemma cleanupScene_keeps:
  "props (cleanupScene c) = props c"
  "containerRef (cleanupScene c) = containerRef c"
  "mouse (cleanupScene c) = mouse c"
  "webGLFailed (cleanupScene c) = webGLFailed c"
  "nextFrameId (cleanupScene c) = nextFrameId c"
  by (simp_all add: cleanupScene_def Let_def split: option.splits)

lemma cleanupScene_handles:
  "scene (cleanupScene c) = None" "camera (cleanupScene c) = None"
  "renderer (cleanupScene c) = None" "animationFrameId (cleanupScene c) = None"
  "pointLight (cleanupScene c) = None" "groundPlain (cleanupScene c) = None"
  by (simp_all add: cleanupScene_def Let_def split: option.splits)

lemma cleanupScene_listeners:
  "listeners (cleanupScene c) =
     removeEventListener ResizeListener
       (if mouseInteraction (props c)
        then removeEventListener MouseMoveListener (listeners c) else listeners c)"
  by (simp add: cleanupScene_def Let_def split: option.splits)

lemma cleanupScene_pendingFrames:
  "pendingFrames (cleanupScene c) =
     (case animationFrameId c of
        None \<Rightarrow> pendingFrames c
      | Some f \<Rightarrow> if f \<noteq> 0 then removeAll f (pendingFrames c) else pendingFrames c)"
  by (simp add: cleanupScene_def Let_def split: option.splits)

lemma animate_keeps:
  "props (animate h c) = props c" "mouse (animate h c) = mouse c"
  "listeners (animate h c) = listeners c" "scene (animate h c) = scene c"
  "camera (animate h c) = camera c" "renderer (animate h c) = renderer c"
  "containerRef (animate h c) = containerRef c" "webGLFailed (animate h c) = webGLFailed c"
  by (simp_all add: animate_def requestAnimationFrame_def split: option.splits)

lemma animate_running:
  assumes "scene c \<noteq> None" and "camera c \<noteq> None" and "renderer c \<noteq> None"
    and "groundPlain c = Some g"
  shows "animate h c =
     c\<lparr>groundPlain := Some (update (props c) g (mouse c)),
       animationFrameId := Some (nextFrameId c),
       pendingFrames := pendingFrames c @ [nextFrameId c],
       nextFrameId := nextFrameId c + 1\<rparr>"
  using assms by (auto simp: animate_def requestAnimationFrame_def)

lemma tick_keeps:
  "mouse (tick h c) = mouse c" "listeners (tick h c) = listeners c" "props (tick h c) = props c"
  by (simp_all add: tick_def animate_keeps split: list.splits)

lemma setupScene_failed:
  assumes "containerRef c = Some el" and "tryCreateRenderer h = Inl e"
  shows "setupScene h rebuild c =
     (if rebuild then cleanupScene c else c)
       \<lparr>scene := Some [],
        camera := Some \<lparr>fov_c = fov (props c), aspect = screenRatio h, near = 0.1, far = 20000\<rparr>,
        webGLFailed := True\<rparr>"
  using assms by (simp add: setupScene_def Let_def cleanupScene_keeps)

lemma setupScene_ok:
  assumes "containerRef c = Some el" and "webglAvailable h"
  shows "setupScene h rebuild c =
     animate h
       ((if rebuild then cleanupScene c else c)
          \<lparr>camera := Some \<lparr>fov_c = fov (props c), aspect = screenRatio h, near = 0.1, far = 20000\<rparr>,
           renderer := Some \<lparr>width_r = screenWidth h, height_r = screenHeight h,
                              pixelRatio = devicePixelRatio h\<rparr>,
           canvases := canvases (if rebuild then cleanupScene c else c) + 1,
           webGLFailed := False,
           pointLight := Some \<lparr>color_l = determineWaveColor h (props c) (Some el), intensity = 4,
                                distance = 1000, position_l = \<lparr>vx = 0, vy = 200, vz = - 500\<rparr>\<rparr>,
           groundPlain := Some (fst (create h (props c) (Some el)
                          (fst (getQualitySettings (quality (props c))))
                          (snd (getQualitySettings (quality (props c))))
                          (createGroundPlain (props c)) [PointLightChild, AmbientLightChild])),
           scene := Some (snd (create h (props c) (Some el)
                          (fst (getQualitySettings (quality (props c))))
                          (snd (getQualitySettings (quality (props c))))
                          (createGroundPlain (props c)) [PointLightChild, AmbientLightChild])),
           mouse := \<lparr>mx = screenCenterX h, my = screenCenterY h\<rparr>,
           listeners :=
             addEventListener ResizeListener
               (if mouseInteraction (props c)
                then addEventListener MouseMoveListener
                       (listeners (if rebuild then cleanupScene c else c))
                else listeners (if rebuild then cleanupScene c else c))\<rparr>)"
proof -
  define c0 where "c0 = (if rebuild then cleanupScene c else c)"
  have k: "props c0 = props c" "containerRef c0 = Some el"
    using assms(1) by (simp_all add: c0_def cleanupScene_keeps)
  show ?thesis
    unfolding setupScene_def c0_def [symmetric]
    using assms k by (simp add: tryCreateRenderer_def Let_def)
qed

lemma setupScene_built:
  assumes "containerRef c = Some el" and "webglAvailable h"
  shows "mouse (setupScene h rebuild c) = \<lparr>mx = screenCenterX h, my = screenCenterY h\<rparr>"
    and "listeners (setupScene h rebuild c) =
          addEventListener ResizeListener
            (if mouseInteraction (props c)
             then addEventListener MouseMoveListener
                    (listeners (if rebuild then cleanupScene c else c))
             else listeners (if rebuild then cleanupScene c else c))"
    and "props (setupScene h rebuild c) = props c"
    and "containerRef (setupScene h rebuild c) = Some el"
    and "scene (setupScene h rebuild c) \<noteq> None"
    and "renderer (setupScene h rebuild c) \<noteq> None"
    and "groundPlain (setupScene h rebuild c) =
          Some (update (props c)
                  (fst (create h (props c) (Some el)
                          (fst (getQualitySettings (quality (props c))))
                          (snd (getQualitySettings (quality (props c))))
                          (createGroundPlain (props c)) [PointLightChild, AmbientLightChild]))
                  \<lparr>mx = screenCenterX h, my = screenCenterY h\<rparr>)"
proof -
  note s = setupScene_ok [OF assms, of rebuild]
  show "mouse (setupScene h rebuild c) = \<lparr>mx = screenCenterX h, my = screenCenterY h\<rparr>"
    unfolding s animate_keeps by simp
  show "listeners (setupScene h rebuild c) =
          addEventListener ResizeListener
            (if mouseInteraction (props c)
             then addEventListener MouseMoveListener
                    (listeners (if rebuild then cleanupScene c else c))
             else listeners (if rebuild then cleanupScene c else c))"
    unfolding s animate_keeps by simp
  show "props (setupScene h rebuild c) = props c"
    unfolding s animate_keeps by (simp add: cleanupScene_keeps)
  show "containerRef (setupScene h rebuild c) = Some el"
    unfolding s animate_keeps using assms(1) by (simp add: cleanupScene_keeps)
  show "scene (setupScene h rebuild c) \<noteq> None"
    unfolding s animate_keeps by simp
  show "renderer (setupScene h rebuild c) \<noteq> None"
    unfolding s animate_keeps by simp
  show "groundPlain (setupScene h rebuild c) =
          Some (update (props c)
                  (fst (create h (props c) (Some el)
                          (fst (getQualitySettings (quality (props c))))
                          (snd (getQualitySettings (quality (props c))))
                          (createGroundPlain (props c)) [PointLightChild, AmbientLightChild]))
                  \<lparr>mx = screenCenterX h, my = screenCenterY h\<rparr>)"
    unfolding s
    by (subst animate_running) (simp_all add: cleanupScene_keeps)
qed

lemma moveNoise_running:
  assumes "running h p pg g"
  shows "running h p pg (moveNoise p' g ptr)"
    and "cycle (moveNoise p' g ptr) = cycle g + speed_in p"
proof -
  obtain geo where geo: "geometry g = Some geo" using assms by (auto simp: running_def)
  have sx: "simplex g = Some (createNoise2D h)" using assms by (simp add: running_def)
  show "running h p pg (moveNoise p' g ptr)"
    using assms geo
    by (simp add: running_def livePositions_moveNoise [OF geo sx] moveNoise_live [OF geo sx]
        length_fold_setXYZ livePositions_def)
  show "cycle (moveNoise p' g ptr) = cycle g + speed_in p"
    using assms by (simp add: running_def moveNoise_live [OF geo sx])
qed

lemma moveNoise_running_height:
  assumes "running h p pg g" and "\<not> mouseInteraction p'" and "i * 3 + 2 < length pg"
  shows "getZ (livePositions (moveNoise p' g ptr)) i =
           createNoise2D h (getX pg i / smoothness p) (getY pg i / smoothness p + cycle g)
             * amplitude p"
proof -
  obtain geo where geo: "geometry g = Some geo" using assms(1) by (auto simp: running_def)
  have sx: "simplex g = Some (createNoise2D h)" using assms(1) by (simp add: running_def)
  have "length (positionArray geo) = length pg"
    using assms(1) geo by (simp add: running_def livePositions_def)
  then have i: "i < count geo" using assms(3) by (simp add: count_def)
  show ?thesis
    using vertex_moveNoise [OF geo sx i, of p' ptr] assms(1,2)
    by (simp add: moveVertex_no_interaction running_def getX_def getY_def)
qed

lemma create_running:
  "running h p (planeGeometry h 4000 2000 gw gh)
     (fst (create h p el gw gh (createGroundPlain p) sc))"
  "cycle (fst (create h p el gw gh (createGroundPlain p) sc)) = speed_in p"
  "snd (create h p el gw gh (createGroundPlain p) sc) = sc @ [GroupChild]"
proof -
  let ?geo = "\<lparr>positionArray = planeGeometry h 4000 2000 gw gh, positionNeedsUpdate = False\<rparr>"
  define g1 where "g1 = (createGroundPlain p)
      \<lparr>group := Some \<lparr>position = move (createGroundPlain p), rotation = look (createGroundPlain p),
                       holdsPlane = False\<rparr>,
       geometry := Some ?geo,
       originalPositions := planeGeometry h 4000 2000 gw gh,
       material := Some \<lparr>color_m = determineWaveColor h p el, opacity_m = opacity p,
                 blending_m = (if opacity p < 1 then NormalBlending else NoBlending),
                 transparent = (opacity p < 1),
                 depthWrite = (if opacity p < 1 then False else True),
                 wireframe_m = wireframe p, needsUpdate_m = False\<rparr>,
       plane := Some \<lparr>meshPosition = \<lparr>vx = 0, vy = 0, vz = 0\<rparr>\<rparr>,
       simplex := Some (createNoise2D h)\<rparr>"
  have r1: "running h p (planeGeometry h 4000 2000 gw gh) g1"
    by (simp add: running_def g1_def livePositions_def createGroundPlain_def)
  have c1: "cycle g1 = 0" by (simp add: g1_def createGroundPlain_def)
  have cr: "create h p el gw gh (createGroundPlain p) sc =
      ((moveNoise p g1 \<lparr>mx = 0, my = 0\<rparr>)
         \<lparr>group := map_option (\<lambda>o3. o3\<lparr>holdsPlane := True\<rparr>)
                     (group (moveNoise p g1 \<lparr>mx = 0, my = 0\<rparr>))\<rparr>,
       sc @ [GroupChild])"
    by (simp add: create_def Let_def g1_def)
  have r2: "running h p (planeGeometry h 4000 2000 gw gh) (moveNoise p g1 \<lparr>mx = 0, my = 0\<rparr>)"
    by (rule moveNoise_running(1) [OF r1])
  show "running h p (planeGeometry h 4000 2000 gw gh)
     (fst (create h p el gw gh (createGroundPlain p) sc))"
    using r2 by (simp add: cr running_def livePositions_def)
  show "cycle (fst (create h p el gw gh (createGroundPlain p) sc)) = speed_in p"
    using moveNoise_running(2) [OF r1, of p "\<lparr>mx = 0, my = 0\<rparr>"] c1 by (simp add: cr)
  show "snd (create h p el gw gh (createGroundPlain p) sc) = sc @ [GroupChild]"
    by (simp add: cr)
qed

lemma tick_mounted:
  assumes "mounted h p pg c" and "\<not> mouseInteraction p"
  shows "mounted h p pg (tick h c)"
    and "engineCycle c = Some k \<Longrightarrow> engineCycle (tick h c) = Some (k + speed_in p)"
    and "engineCycle c = Some k \<Longrightarrow> i * 3 + 2 < length pg \<Longrightarrow>
         vertexZ (tick h c) i =
           Some (createNoise2D h (getX pg i / smoothness p) (getY pg i / smoothness p + k)
                   * amplitude p)"
proof -
  obtain g where g: "groundPlain c = Some g" and r: "running h p pg g"
    using assms(1) by (auto simp: mounted_def split: option.splits)
  obtain f fs where pf: "pendingFrames c = f # fs"
    using assms(1) by (cases "pendingFrames c") (auto simp: mounted_def)
  let ?c = "c\<lparr>pendingFrames := fs\<rparr>"
  have pr: "props c = p" using assms(1) by (simp add: mounted_def)
  have live: "scene ?c \<noteq> None" "camera ?c \<noteq> None" "renderer ?c \<noteq> None"
    "groundPlain ?c = Some g"
    using assms(1) g by (simp_all add: mounted_def)
  have t: "tick h c =
     ?c\<lparr>groundPlain := Some (moveNoise p g (mouse c)),
        animationFrameId := Some (nextFrameId c),
        pendingFrames := fs @ [nextFrameId c],
        nextFrameId := nextFrameId c + 1\<rparr>"
    using animate_running [OF live, of h] pr assms(2)
    by (simp add: tick_def pf update_no_interaction)
  show "mounted h p pg (tick h c)"
    using assms(1) moveNoise_running(1) [OF r, of p "mouse c"] by (simp add: t mounted_def)
  show "engineCycle (tick h c) = Some (k + speed_in p)" if "engineCycle c = Some k"
    using that g moveNoise_running(2) [OF r, of p "mouse c"] by (simp add: t engineCycle_def)
  show "vertexZ (tick h c) i =
           Some (createNoise2D h (getX pg i / smoothness p) (getY pg i / smoothness p + k)
                   * amplitude p)"
    if "engineCycle c = Some k" and "i * 3 + 2 < length pg"
    using that g moveNoise_running_height [OF r assms(2) that(2), of "mouse c"]
    by (simp add: t engineCycle_def vertexZ_def)
qed

lemma ticks_mounted:
  assumes "mounted h p pg c" and "\<not> mouseInteraction p" and "engineCycle c = Some k"
  shows "mounted h p pg ((tick h ^^ n) c)
       \<and> engineCycle ((tick h ^^ n) c) = Some (k + real n * speed_in p)"
proof (induction n)
  case 0
  then show ?case using assms by simp
next
  case (Suc n)
  then have m: "mounted h p pg ((tick h ^^ n) c)"
    and e: "engineCycle ((tick h ^^ n) c) = Some (k + real n * speed_in p)" by simp_all
  show ?case
    using tick_mounted(1) [OF m assms(2)] tick_mounted(2) [OF m assms(2) e]
    by (simp add: algebra_simps)
qed

lemma ticks_height:
  assumes "mounted h p pg c" and "\<not> mouseInteraction p" and "engineCycle c = Some k"
    and "i * 3 + 2 < length pg"
  shows "vertexZ ((tick h ^^ Suc n) c) i =
           Some (createNoise2D h (getX pg i / smoothness p)
                   (getY pg i / smoothness p + (k + real n * speed_in p)) * amplitude p)"
proof -
  from ticks_mounted [OF assms(1,2,3), of n]
  have m: "mounted h p pg ((tick h ^^ n) c)"
    and e: "engineCycle ((tick h ^^ n) c) = Some (k + real n * speed_in p)" by simp_all
  show ?thesis
    using tick_mounted(3) [OF m assms(2) e assms(4)] by simp
qed

lemma mount_mounted:
  assumes "webglAvailable h" and "\<not> mouseInteraction p"
  shows "mounted h p
           (planeGeometry h 4000 2000 (fst (getQualitySettings (quality p)))
              (snd (getQualitySettings (quality p))))
           (ngAfterViewInit h (newComponent p (Some el)))"
    and "engineCycle (ngAfterViewInit h (newComponent p (Some el))) = Some (2 * speed_in p)"
    and "i * 3 + 2 < length (planeGeometry h 4000 2000 (fst (getQualitySettings (quality p)))
              (snd (getQualitySettings (quality p)))) \<Longrightarrow>
         vertexZ (ngAfterViewInit h (newComponent p (Some el))) i =
           Some (createNoise2D h
                   (getX (planeGeometry h 4000 2000 (fst (getQualitySettings (quality p)))
                      (snd (getQualitySettings (quality p)))) i / smoothness p)
                   (getY (planeGeometry h 4000 2000 (fst (getQualitySettings (quality p)))
                      (snd (getQualitySettings (quality p)))) i / smoothness p + speed_in p)
                   * amplitude p)"
proof -
  let ?pg = "planeGeometry h 4000 2000 (fst (getQualitySettings (quality p)))
              (snd (getQualitySettings (quality p)))"
  let ?c = "newComponent p (Some el)"
  let ?made = "create h p (Some el) (fst (getQualitySettings (quality p)))
      (snd (getQualitySettings (quality p))) (createGroundPlain p)
      [PointLightChild, AmbientLightChild]"
  have c: "containerRef ?c = Some el" "props ?c = p" by (simp_all add: newComponent_def)
  have r: "running h p ?pg (fst ?made)" by (rule create_running(1))
  have cy: "cycle (fst ?made) = speed_in p" by (rule create_running(2))
  define pre where "pre = ?c
          \<lparr>camera := Some \<lparr>fov_c = fov p, aspect = screenRatio h, near = 0.1, far = 20000\<rparr>,
           renderer := Some \<lparr>width_r = screenWidth h, height_r = screenHeight h,
                              pixelRatio = devicePixelRatio h\<rparr>,
           canvases := canvases ?c + 1,
           webGLFailed := False,
           pointLight := Some \<lparr>color_l = determineWaveColor h p (Some el), intensity = 4,
                                distance = 1000, position_l = \<lparr>vx = 0, vy = 200, vz = - 500\<rparr>\<rparr>,
           groundPlain := Some (fst ?made),
           scene := Some (snd ?made),
           mouse := \<lparr>mx = screenCenterX h, my = screenCenterY h\<rparr>,
           listeners := addEventListener ResizeListener (listeners ?c)\<rparr>"
  have s: "ngAfterViewInit h ?c = animate h pre"
    using setupScene_ok [OF c(1) assms(1), of False] assms(2)
    by (simp add: ngAfterViewInit_def c(2) pre_def)
  have live: "scene pre \<noteq> None" "camera pre \<noteq> None" "renderer pre \<noteq> None"
    "groundPlain pre = Some (fst ?made)"
    by (simp_all add: pre_def)
  have pp: "props pre = p" by (simp add: pre_def newComponent_def)
  have a: "ngAfterViewInit h ?c =
     pre\<lparr>groundPlain := Some (moveNoise p (fst ?made) (mouse pre)),
       animationFrameId := Some (nextFrameId pre),
       pendingFrames := pendingFrames pre @ [nextFrameId pre],
       nextFrameId := nextFrameId pre + 1\<rparr>"
    using animate_running [OF live, of h] assms(2)
    by (simp add: s pp update_no_interaction)
  show "mounted h p ?pg (ngAfterViewInit h ?c)"
    using moveNoise_running(1) [OF r, of p "mouse pre"] live pp by (simp add: a mounted_def)
  show "engineCycle (ngAfterViewInit h ?c) = Some (2 * speed_in p)"
    using moveNoise_running(2) [OF r, of p "mouse pre"] cy by (simp add: a engineCycle_def)
  show "vertexZ (ngAfterViewInit h ?c) i =
           Some (createNoise2D h (getX ?pg i / smoothness p)
                   (getY ?pg i / smoothness p + speed_in p) * amplitude p)"
    if "i * 3 + 2 < length ?pg"
    using moveNoise_running_height [OF r assms(2) that, of "mouse pre"] cy
    by (simp add: a vertexZ_def)
qed

lemma mount_ticks:
  assumes "webglAvailable h" and "\<not> mouseInteraction p"
    and "i * 3 + 2 < length (planeGeometry h 4000 2000 (fst (getQualitySettings (quality p)))
              (snd (getQualitySettings (quality p))))"
  shows "engineCycle ((tick h ^^ n) (ngAfterViewInit h (newComponent p (Some el))))
           = Some (real (n + 2) * speed_in p)"
    and "vertexZ ((tick h ^^ n) (ngAfterViewInit h (newComponent p (Some el)))) i =
           Some (createNoise2D h
                   (getX (planeGeometry h 4000 2000 (fst (getQualitySettings (quality p)))
                      (snd (getQualitySettings (quality p)))) i / smoothness p)
                   (getY (planeGeometry h 4000 2000 (fst (getQualitySettings (quality p)))
                      (snd (getQualitySettings (quality p)))) i / smoothness p
                    + real (n + 1) * speed_in p)
                   * amplitude p)"
proof -
  note m = mount_mounted [OF assms(1,2), where el = el]
  show "engineCycle ((tick h ^^ n) (ngAfterViewInit h (newComponent p (Some el))))
           = Some (real (n + 2) * speed_in p)"
    using ticks_mounted [OF m(1) assms(2) m(2), of n] by (simp add: algebra_simps)
  show "vertexZ ((tick h ^^ n) (ngAfterViewInit h (newComponent p (Some el)))) i =
           Some (createNoise2D h
                   (getX (planeGeometry h 4000 2000 (fst (getQualitySettings (quality p)))
                      (snd (getQualitySettings (quality p)))) i / smoothness p)
                   (getY (planeGeometry h 4000 2000 (fst (getQualitySettings (quality p)))
                      (snd (getQualitySettings (quality p)))) i / smoothness p
                    + real (n + 1) * speed_in p)
                   * amplitude p)"
  proof (cases n)
    case 0
    then show ?thesis using m(3) [OF assms(3)] by simp
  next
    case (Suc k)
    show ?thesis
      using ticks_height [OF m(1) assms(2) m(2) assms(3), of k]
      unfolding Suc by (simp add: algebra_simps)
  qed
qed

text \<open>Over the reals, \<open>n\<close> additions of \<open>s\<close> are a product.\<close>

lemma advances_eq: "advances s n = real n * s"
  by (induction n) (simp_all add: algebra_simps)

text \<open>
  C1, as the code has it. Mounting with quality low, mouse interaction off, speed
  \<open>0.015\<close> and amplitude \<open>30\<close> already runs \<^verbatim>\<open>moveNoise\<close> twice: once inside
  \<^verbatim>\<open>create\<close>, and once in the first \<^verbatim>\<open>animate\<close> call, which \<^verbatim>\<open>setupScene\<close>
  makes itself. So \<open>cycle\<close> has been advanced twice after mounting and twelve times after
  ten further ticks: it is the result of twelve additions of \<open>0.015\<close>, starting from \<open>0\<close>.
  A vertex with original planar coordinates \<open>(0, 0)\<close> then has the height
  \<open>noise2D 0 c * 30\<close>, for \<open>c\<close> the result of eleven additions. After nine further ticks,
  ten \<^verbatim>\<open>animate\<close> calls in all, \<open>cycle\<close> is the result of eleven additions and the
  height comes from the result of ten.
\<close>

theorem mount_then_ten_ticks:
  assumes "quality p = Low" and "\<not> mouseInteraction p" and "speed_in p = 0.015"
    and "amplitude p = 30" and "smoothness p \<noteq> 0" and "webglAvailable h"
    and "i * 3 + 2 < length (planeGeometry h 4000 2000 64 32)"
    and "getX (planeGeometry h 4000 2000 64 32) i = 0"
    and "getY (planeGeometry h 4000 2000 64 32) i = 0"
  shows "engineCycle (ngAfterViewInit h (newComponent p (Some el))) = Some (advances 0.015 2)
       \<and> engineCycle ((tick h ^^ 10) (ngAfterViewInit h (newComponent p (Some el))))
           = Some (advances 0.015 12)
       \<and> vertexZ ((tick h ^^ 10) (ngAfterViewInit h (newComponent p (Some el)))) i
           = Some (createNoise2D h 0 (advances 0.015 11) * 30)
       \<and> engineCycle ((tick h ^^ 9) (ngAfterViewInit h (newComponent p (Some el))))
           = Some (advances 0.015 11)
       \<and> vertexZ ((tick h ^^ 9) (ngAfterViewInit h (newComponent p (Some el)))) i
           = Some (createNoise2D h 0 (advances 0.015 10) * 30)"
proof -
  have q: "fst (getQualitySettings (quality p)) = 64" "snd (getQualitySettings (quality p)) = 32"
    using assms(1) by simp_all
  have i: "i * 3 + 2 < length (planeGeometry h 4000 2000 (fst (getQualitySettings (quality p)))
              (snd (getQualitySettings (quality p))))"
    using assms(7) by (simp add: q)
  note mt = mount_ticks [OF assms(6) assms(2) i, where el = el, unfolded q assms(3,4,8,9)]
  have a: "engineCycle (ngAfterViewInit h (newComponent p (Some el))) = Some (advances 0.015 2)"
    using mt(1) [of 0] by (simp add: advances_eq)
  have b: "engineCycle ((tick h ^^ 10) (ngAfterViewInit h (newComponent p (Some el))))
      = Some (advances 0.015 12)"
    using mt(1) [of 10] by (simp add: advances_eq)
  have c: "vertexZ ((tick h ^^ 10) (ngAfterViewInit h (newComponent p (Some el)))) i
           = Some (createNoise2D h 0 (advances 0.015 11) * 30)"
    using mt(2) [of 10] by (simp add: advances_eq)
  have d: "engineCycle ((tick h ^^ 9) (ngAfterViewInit h (newComponent p (Some el))))
      = Some (advances 0.015 11)"
    using mt(1) [of 9] by (simp add: advances_eq)
  have e: "vertexZ ((tick h ^^ 9) (ngAfterViewInit h (newComponent p (Some el)))) i
           = Some (createNoise2D h 0 (advances 0.015 10) * 30)"
    using mt(2) [of 9] by (simp add: advances_eq)
  show ?thesis using a b c d e by (intro conjI)
qed

text \<open>The sample host, whose plane has its centre vertex at index 1.\<close>

theorem mount_then_ten_ticks_witness:
  "engineCycle (ngAfterViewInit sampleHost (newComponent lowInputs (Some darkPage)))
     = Some (advances 0.015 2)
   \<and> engineCycle ((tick sampleHost ^^ 10)
        (ngAfterViewInit sampleHost (newComponent lowInputs (Some darkPage))))
     = Some (advances 0.015 12)
   \<and> vertexZ ((tick sampleHost ^^ 10)
        (ngAfterViewInit sampleHost (newComponent lowInputs (Some darkPage)))) 1
     = Some (sampleNoise 0 (advances 0.015 11) * 30)
   \<and> engineCycle ((tick sampleHost ^^ 9)
        (ngAfterViewInit sampleHost (newComponent lowInputs (Some darkPage))))
     = Some (advances 0.015 11)
   \<and> vertexZ ((tick sampleHost ^^ 9)
        (ngAfterViewInit sampleHost (newComponent lowInputs (Some darkPage)))) 1
     = Some (sampleNoise 0 (advances 0.015 10) * 30)"
proof -
  have s: "smoothness lowInputs \<noteq> 0" by (simp add: lowInputs_fields)
  have i: "1 * 3 + 2 < length (planeGeometry sampleHost 4000 2000 64 32)"
    by (simp add: sampleHost_fields samplePlane_def)
  have x: "getX (planeGeometry sampleHost 4000 2000 64 32) 1 = 0"
    by (simp add: sampleHost_fields samplePlane_def getX_def)
  have y: "getY (planeGeometry sampleHost 4000 2000 64 32) 1 = 0"
    by (simp add: sampleHost_fields samplePlane_def getY_def)
  show ?thesis
    using mount_then_ten_ticks [OF lowInputs_fields(1,2,3,4) s sampleHost_fields(1) i x y,
        of darkPage]
    unfolding sampleHost_fields(3) .
qed

text \<open>
  C1 as stated fails on the sample host: after mounting and ten ticks \<open>cycle\<close> is not
  \<open>0.15\<close> and the height of the centre vertex is not \<open>noise2D 0 0.15 * 30\<close>; counting
  the tick of \<^verbatim>\<open>setupScene\<close> as the first of the ten, \<open>cycle\<close> is not \<open>0.15\<close> either.
\<close>

theorem mount_then_ten_ticks_counterexample:
  "engineCycle ((tick sampleHost ^^ 10)
        (ngAfterViewInit sampleHost (newComponent lowInputs (Some darkPage)))) \<noteq> Some 0.15
   \<and> vertexZ ((tick sampleHost ^^ 10)
        (ngAfterViewInit sampleHost (newComponent lowInputs (Some darkPage)))) 1
       \<noteq> Some (sampleNoise 0 0.15 * 30)
   \<and> engineCycle ((tick sampleHost ^^ 9)
        (ngAfterViewInit sampleHost (newComponent lowInputs (Some darkPage)))) \<noteq> Some 0.15"
proof -
  have q: "fst (getQualitySettings (quality lowInputs)) = 64"
    "snd (getQualitySettings (quality lowInputs)) = 32"
    by (simp_all add: lowInputs_fields)
  have i: "1 * 3 + 2 < length (planeGeometry sampleHost 4000 2000
              (fst (getQualitySettings (quality lowInputs)))
              (snd (getQualitySettings (quality lowInputs))))"
    by (simp add: sampleHost_fields samplePlane_def)
  note mt = mount_ticks [OF sampleHost_fields(1) lowInputs_fields(2) i, where el = darkPage]
  have a: "engineCycle ((tick sampleHost ^^ 10)
        (ngAfterViewInit sampleHost (newComponent lowInputs (Some darkPage)))) = Some (9 / 50)"
    using mt(1) [of 10] by (simp add: lowInputs_fields)
  have b: "vertexZ ((tick sampleHost ^^ 10)
        (ngAfterViewInit sampleHost (newComponent lowInputs (Some darkPage)))) 1 = Some (990 / 233)"
    using mt(2) [of 10]
    by (simp add: lowInputs_fields sampleHost_fields samplePlane_def getX_def getY_def
        sampleNoise_def)
  have c: "engineCycle ((tick sampleHost ^^ 9)
        (ngAfterViewInit sampleHost (newComponent lowInputs (Some darkPage)))) = Some (33 / 200)"
    using mt(1) [of 9] by (simp add: lowInputs_fields)
  have n: "sampleNoise 0 0.15 * 30 = 90 / 23" by (simp add: sampleNoise_def)
  show ?thesis unfolding a b c n by simp
qed

text \<open>
  C9. When the creation of the rendering context fails in \<^verbatim>\<open>setupScene\<close>, the call
  still returns a state: \<open>webGLFailed\<close> is set, and nothing after the \<^verbatim>\<open>try\<close> block
  has run. The listeners and the requested frames are those the optional cleanup left,
  so none is new; no frame id was handed out, and there is no engine and no renderer
  beyond what was there.
\<close>

theorem setupScene_renderer_failure:
  assumes "containerRef c = Some el" and "tryCreateRenderer h = Inl e"
  shows "webGLFailed (setupScene h rebuild c)
       \<and> listeners (setupScene h rebuild c) = listeners (if rebuild then cleanupScene c else c)
       \<and> set (listeners (setupScene h rebuild c)) \<subseteq> set (listeners c)
       \<and> pendingFrames (setupScene h rebuild c)
           = pendingFrames (if rebuild then cleanupScene c else c)
       \<and> set (pendingFrames (setupScene h rebuild c)) \<subseteq> set (pendingFrames c)
       \<and> nextFrameId (setupScene h rebuild c) = nextFrameId c
       \<and> animationFrameId (setupScene h rebuild c)
           = animationFrameId (if rebuild then cleanupScene c else c)
       \<and> groundPlain (setupScene h rebuild c)
           = groundPlain (if rebuild then cleanupScene c else c)
       \<and> renderer (setupScene h rebuild c) = renderer (if rebuild then cleanupScene c else c)"
proof -
  note s = setupScene_failed [OF assms, of rebuild]
  have l: "set (listeners (cleanupScene c)) \<subseteq> set (listeners c)"
    by (auto simp: cleanupScene_listeners removeEventListener_def)
  have f: "set (pendingFrames (cleanupScene c)) \<subseteq> set (pendingFrames c)"
    by (auto simp: cleanupScene_pendingFrames split: option.splits)
  show ?thesis
    unfolding s using l f by (simp add: cleanupScene_keeps)
qed

text \<open>Mounting a fresh component on a host without WebGL.\<close>

theorem setupScene_renderer_failure_witness:
  "webGLFailed (setupScene failingHost False (newComponent defaultInputs (Some darkPage)))
   \<and> listeners (setupScene failingHost False (newComponent defaultInputs (Some darkPage))) = []
   \<and> pendingFrames (setupScene failingHost False (newComponent defaultInputs (Some darkPage))) = []
   \<and> animationFrameId (setupScene failingHost False (newComponent defaultInputs (Some darkPage)))
       = None
   \<and> groundPlain (setupScene failingHost False (newComponent defaultInputs (Some darkPage))) = None
   \<and> renderer (setupScene failingHost False (newComponent defaultInputs (Some darkPage))) = None"
proof -
  have c: "containerRef (newComponent defaultInputs (Some darkPage)) = Some darkPage"
    by (simp add: newComponent_def)
  have t: "tryCreateRenderer failingHost = Inl WebGLError"
    by (simp add: tryCreateRenderer_def failingHost_def)
  show ?thesis
    using setupScene_renderer_failure [OF c t, of False] by (simp add: newComponent_def)
qed

lemma mountedSample_fields:
  "mouse mountedSample = \<lparr>mx = 640, my = 360\<rparr>"
  "listeners mountedSample = [MouseMoveListener, ResizeListener]"
  "props mountedSample = defaultInputs"
  "containerRef mountedSample = Some darkPage"
  "scene mountedSample \<noteq> None"
  "renderer mountedSample \<noteq> None"
  "groundPlain mountedSample =
     Some (update defaultInputs
             (fst (create sampleHost defaultInputs (Some darkPage) 128 64
                     (createGroundPlain defaultInputs) [PointLightChild, AmbientLightChild]))
             \<lparr>mx = 640, my = 360\<rparr>)"
proof -
  have c: "containerRef (newComponent defaultInputs (Some darkPage)) = Some darkPage"
    by (simp add: newComponent_def)
  have p: "props (newComponent defaultInputs (Some darkPage)) = defaultInputs"
    "listeners (newComponent defaultInputs (Some darkPage)) = []"
    by (simp_all add: newComponent_def)
  have d: "mouseInteraction defaultInputs" "quality defaultInputs = Medium"
    by (simp_all add: defaultInputs_def)
  note b = setupScene_built [OF c sampleHost_fields(1), of False, unfolded p sampleHost_fields(4,5)]
  show "mouse mountedSample = \<lparr>mx = 640, my = 360\<rparr>"
    unfolding mountedSample_def ngAfterViewInit_def by (rule b(1))
  show "listeners mountedSample = [MouseMoveListener, ResizeListener]"
    unfolding mountedSample_def ngAfterViewInit_def b(2)
    by (simp add: d p addEventListener_def)
  show "props mountedSample = defaultInputs"
    unfolding mountedSample_def ngAfterViewInit_def by (rule b(3))
  show "containerRef mountedSample = Some darkPage"
    unfolding mountedSample_def ngAfterViewInit_def by (rule b(4))
  show "scene mountedSample \<noteq> None"
    unfolding mountedSample_def ngAfterViewInit_def by (rule b(5))
  show "renderer mountedSample \<noteq> None"
    unfolding mountedSample_def ngAfterViewInit_def by (rule b(6))
  show "groundPlain mountedSample =
     Some (update defaultInputs
             (fst (create sampleHost defaultInputs (Some darkPage) 128 64
                     (createGroundPlain defaultInputs) [PointLightChild, AmbientLightChild]))
             \<lparr>mx = 640, my = 360\<rparr>)"
    unfolding mountedSample_def ngAfterViewInit_def b(7) by (simp add: d)
qed

text \<open>
  C8 on the sample host, whose viewport is 1280 by 720. After mounting, and before any
  pointer event, the pointer state is \<open>(640, 360)\<close>: this is the value the first
  \<^verbatim>\<open>update\<close> received and the value a tick feeds to the next one. The handler of
  \<^verbatim>\<open>mousemove\<close> stores offsets from the centre, so a pointer resting on the very centre
  of the viewport gives \<open>(0, 0)\<close>.
\<close>

theorem initial_pointer_is_not_centre_offset:
  "mouse mountedSample = \<lparr>mx = 640, my = 360\<rparr>
   \<and> groundPlain mountedSample =
       Some (update defaultInputs
               (fst (create sampleHost defaultInputs (Some darkPage) 128 64
                       (createGroundPlain defaultInputs) [PointLightChild, AmbientLightChild]))
               \<lparr>mx = 640, my = 360\<rparr>)
   \<and> mouse (tick sampleHost mountedSample) = \<lparr>mx = 640, my = 360\<rparr>
   \<and> mouse (dispatchMouseMove sampleHost \<lparr>clientX = 640, clientY = 360\<rparr> mountedSample)
       = \<lparr>mx = 0, my = 0\<rparr>"
proof -
  have d: "mouseInteraction defaultInputs" by (simp add: defaultInputs_def)
  have m: "mouse (dispatchMouseMove sampleHost \<lparr>clientX = 640, clientY = 360\<rparr> mountedSample)
       = \<lparr>mx = 0, my = 0\<rparr>"
    by (simp add: dispatchMouseMove_def handleMouseMove_def mountedSample_fields d
        mouseCenterX_def mouseCenterY_def sampleHost_fields)
  show ?thesis
    using mountedSample_fields(1,7) m by (simp add: tick_keeps)
qed

lemma dispose_idempotent:
  "dispose (dispose g) = dispose g"
  "geometry (dispose g) = None" "material (dispose g) = None" "plane (dispose g) = None"
  "group (dispose g) = None" "simplex (dispose g) = None" "originalPositions (dispose g) = []"
  by (simp_all add: dispose_def)

text \<open>A second teardown changes nothing, and the first one leaves every handle null.\<close>

lemma cleanupScene_idempotent: "cleanupScene (cleanupScene c) = cleanupScene c"
proof -
  have l: "listeners (cleanupScene (cleanupScene c)) = listeners (cleanupScene c)"
    unfolding cleanupScene_listeners [of "cleanupScene c"] cleanupScene_keeps
    by (simp add: cleanupScene_listeners removeEventListener_def)
  have f: "pendingFrames (cleanupScene (cleanupScene c)) = pendingFrames (cleanupScene c)"
    unfolding cleanupScene_pendingFrames [of "cleanupScene c"] cleanupScene_handles by simp
  have r: "cleanupScene (cleanupScene c) =
      (cleanupScene c)\<lparr>listeners := listeners (cleanupScene (cleanupScene c)),
                        pendingFrames := pendingFrames (cleanupScene (cleanupScene c))\<rparr>"
    by (simp add: cleanupScene_def [of "cleanupScene c"] Let_def cleanupScene_handles)
  show ?thesis by (subst r) (simp add: l f)
qed

lemma cleanupScene_deregisters:
  "ResizeListener \<notin> set (listeners (cleanupScene c))"
  "mouseInteraction (props c) \<Longrightarrow> MouseMoveListener \<notin> set (listeners (cleanupScene c))"
  by (simp_all add: cleanupScene_listeners removeEventListener_def)

lemma ngOnChanges_rebuild_listeners:
  assumes "scene c \<noteq> None" and "renderer c \<noteq> None" and "groundPlain c = Some g"
    and "containerRef c = Some el" and "webglAvailable h"
    and "list_ex (\<lambda>k. k \<in> set changes) heavyKeys"
  shows "listeners (ngOnChanges h changes c) =
          addEventListener ResizeListener
            (if mouseInteraction (props c)
             then addEventListener MouseMoveListener (listeners (cleanupScene c))
             else listeners (cleanupScene c))"
    and "props (ngOnChanges h changes c) = props c"
proof -
  define c1 where "c1 =
     (case material g of
        None \<Rightarrow> c
      | Some mat \<Rightarrow>
          c\<lparr>groundPlain := Some (g\<lparr>material := Some (mat
                 \<lparr>color_m := determineWaveColor h (props c) (containerRef c),
                  wireframe_m := wireframe (props c),
                  opacity_m := opacity (props c),
                  transparent := (opacity (props c) < 1),
                  depthWrite := (if opacity (props c) < 1 then False else True),
                  blending_m := (if opacity (props c) < 1 then NormalBlending else NoBlending),
                  needsUpdate_m := True\<rparr>)\<rparr>),
            pointLight := map_option
                (\<lambda>l. l\<lparr>color_l := determineWaveColor h (props c) (containerRef c)\<rparr>)
                (pointLight c)\<rparr>)"
  have k: "containerRef c1 = Some el" "props c1 = props c" "listeners c1 = listeners c"
    using assms(4) by (simp_all add: c1_def split: option.splits)
  obtain sc r where live: "scene c = Some sc" "renderer c = Some r"
    using assms(1,2) by auto
  have n: "ngOnChanges h changes c = setupScene h True c1"
    using assms(3,6) live
    by (cases "material g") (simp_all add: ngOnChanges_def Let_def c1_def)
  have l: "listeners (cleanupScene c1) = listeners (cleanupScene c)"
    by (simp add: cleanupScene_listeners k)
  show "listeners (ngOnChanges h changes c) =
          addEventListener ResizeListener
            (if mouseInteraction (props c)
             then addEventListener MouseMoveListener (listeners (cleanupScene c))
             else listeners (cleanupScene c))"
    unfolding n setupScene_built(2) [OF k(1) assms(5)] by (simp add: k l)
  show "props (ngOnChanges h changes c) = props c"
    unfolding n setupScene_built(3) [OF k(1) assms(5)] by (rule k(2))
qed

text \<open>
  C10 on the sample host. Torn down right after mounting, the component leaves no
  listener. When \<open>mouseInteraction\<close> is switched off after mounting, the cleanup of the
  rebuild skips the removal of the \<^verbatim>\<open>mousemove\<close> listener that the first setup
  registered, and so does every later teardown: the listener stays registered.
\<close>

theorem teardown_leaves_mousemove_listener:
  "listeners mountedSample = [MouseMoveListener, ResizeListener]
   \<and> listeners (ngOnDestroy mountedSample) = []
   \<and> listeners (changeInputs sampleHost (defaultInputs\<lparr>mouseInteraction := False\<rparr>)
                  [''mouseInteraction''] mountedSample)
       = [MouseMoveListener, ResizeListener]
   \<and> listeners (ngOnDestroy
         (changeInputs sampleHost (defaultInputs\<lparr>mouseInteraction := False\<rparr>)
            [''mouseInteraction''] mountedSample))
       = [MouseMoveListener]
   \<and> listeners (ngOnDestroy (ngOnDestroy
         (changeInputs sampleHost (defaultInputs\<lparr>mouseInteraction := False\<rparr>)
            [''mouseInteraction''] mountedSample)))
       = [MouseMoveListener]"
proof -
  let ?p = "defaultInputs\<lparr>mouseInteraction := False\<rparr>"
  let ?c = "mountedSample\<lparr>props := ?p\<rparr>"
  have d: "mouseInteraction defaultInputs" by (simp add: defaultInputs_def)
  have a: "listeners (ngOnDestroy mountedSample) = []"
    by (simp add: ngOnDestroy_def cleanupScene_listeners mountedSample_fields d
        removeEventListener_def)
  have pre: "scene ?c \<noteq> None" "renderer ?c \<noteq> None"
    "groundPlain ?c = groundPlain mountedSample" "containerRef ?c = Some darkPage"
    using mountedSample_fields(4,5,6) by simp_all
  obtain g where g: "groundPlain ?c = Some g"
    using pre(3) mountedSample_fields(7) by simp
  have hk: "list_ex (\<lambda>k. k \<in> set [''mouseInteraction'']) heavyKeys"
    by (simp add: heavyKeys_def)
  have cl: "listeners (cleanupScene ?c) = [MouseMoveListener]"
    by (simp add: cleanupScene_listeners mountedSample_fields removeEventListener_def)
  note n = ngOnChanges_rebuild_listeners [OF pre(1,2) g pre(4) sampleHost_fields(1) hk]
  have b: "listeners (changeInputs sampleHost ?p [''mouseInteraction''] mountedSample)
       = [MouseMoveListener, ResizeListener]"
    unfolding changeInputs_def n(1) by (simp add: cl addEventListener_def)
  have pc: "props (changeInputs sampleHost ?p [''mouseInteraction''] mountedSample) = ?p"
    unfolding changeInputs_def n(2) by simp
  have c: "listeners (ngOnDestroy
         (changeInputs sampleHost ?p [''mouseInteraction''] mountedSample)) = [MouseMoveListener]"
    by (simp add: ngOnDestroy_def cleanupScene_listeners pc b removeEventListener_def)
  have e: "ngOnDestroy (ngOnDestroy
         (changeInputs sampleHost ?p [''mouseInteraction''] mountedSample))
      = ngOnDestroy (changeInputs sampleHost ?p [''mouseInteraction''] mountedSample)"
    by (simp add: ngOnDestroy_def cleanupScene_idempotent)
  show ?thesis
    unfolding e using mountedSample_fields(2) a b c by (intro conjI)
qed

end
